theory Spec2Isabelle
  imports Main
begin

section \<open>Values, processes and the platform\<close>

text \<open>
  The value \<open>parseYaml\<close> hands back: a YAML document as a JavaScript value. A mapping is
  a plain object, kept as an association list of its keys; a sequence is an array.
\<close>

datatype yaml =
    YNull
  | YBool bool
  | YNum int
  | YStr string
  | YSeq "yaml list"
  | YMap "(string \<times> yaml) list"

text \<open>One entry of \<open>validateMetadataSchema.errors\<close>: the fields the script reads.\<close>

record schema_error =
  instancePath :: string
  message :: string

text \<open>One \<open>Dirent\<close> of \<open>readdirSync(..., { withFileTypes: true })\<close>.\<close>

record dirent =
  name :: string
  isDir :: bool

text \<open>
  What the process does that can be seen from outside, in order: lines written to the two
  streams and the calls into the file system.
\<close>

datatype event =
    Stdout string
  | Stderr string
  | ExistsSync string
  | StatSync string
  | ReadFileSync string
  | ReaddirSync string

text \<open>
  How a run stops early: \<open>process.exit(n)\<close>, or a \<open>TypeError\<close> that nothing catches
  (Node then leaves with status 1).
\<close>

datatype halt = Exit nat | Uncaught

type_synonym 'a proc = "event list \<times> (halt + 'a)"

definition return :: "'a \<Rightarrow> 'a proc" where
  "return a = ([], Inr a)"

definition andThen :: "'a proc \<Rightarrow> ('a \<Rightarrow> 'b proc) \<Rightarrow> 'b proc" where
  "andThen m f =
     (case m of
        (tr, Inl h) \<Rightarrow> (tr, Inl h)
      | (tr, Inr a) \<Rightarrow> (case f a of (tr', r) \<Rightarrow> (tr @ tr', r)))"

definition throwTypeError :: "'a proc" where
  "throwTypeError = ([], Inl Uncaught)"

definition console_error :: "string \<Rightarrow> unit proc" where
  "console_error s = ([Stderr s], Inr ())"

definition console_log :: "string \<Rightarrow> unit proc" where
  "console_log s = ([Stdout s], Inr ())"

definition process_exit :: "nat \<Rightarrow> 'a proc" where
  "process_exit n = ([], Inl (Exit n))"

definition exit_status :: "'a proc \<Rightarrow> nat" where
  "exit_status p =
     (case snd p of Inr _ \<Rightarrow> 0 | Inl (Exit n) \<Rightarrow> n | Inl Uncaught \<Rightarrow> 1)"

text \<open>
  The collaborators the script imports and does not define: \<open>node:path\<close>, \<open>node:fs\<close>, the
  \<open>yaml\<close> parser, the compiled schema of \<open>ajv\<close>, and \<open>validator\<close>. They are parameters of
  the model. \<open>readFileSync\<close> and \<open>parseYaml\<close> give \<open>Inl\<close> of the message of the error they
  throw; \<open>validateMetadataSchema\<close> gives \<open>None\<close> when it returns true and its \<open>errors\<close>
  otherwise; the flag of \<open>isEmail\<close> is its option \<open>allow_display_name\<close>; \<open>script_dir\<close> is
  \<open>__dirname\<close>. The model starts where \<open>main\<close> has its positional arguments: loading and
  compiling the schema at start-up, and \<open>parseArgs\<close> rejecting an unknown option, come before
  it. \<open>existsSync\<close>, \<open>statSync\<close> after it, and \<open>readdirSync\<close> of the root answer; they do
  not throw.
\<close>

record world =
  basename :: "string \<Rightarrow> string"
  join :: "string \<Rightarrow> string \<Rightarrow> string"
  script_dir :: string
  existsSync :: "string \<Rightarrow> bool"
  isDirectory :: "string \<Rightarrow> bool"
  readFileSync :: "string \<Rightarrow> string + string"
  readdirSync :: "string \<Rightarrow> dirent list"
  parseYaml :: "string \<Rightarrow> string + yaml"
  validateMetadataSchema :: "yaml \<Rightarrow> schema_error list option"
  isEmail :: "string \<Rightarrow> bool \<Rightarrow> bool"
  isURL :: "string \<Rightarrow> bool"

definition fs_existsSync :: "world \<Rightarrow> string \<Rightarrow> bool proc" where
  "fs_existsSync w p = ([ExistsSync p], Inr (existsSync w p))"

definition fs_statSync_isDirectory :: "world \<Rightarrow> string \<Rightarrow> bool proc" where
  "fs_statSync_isDirectory w p = ([StatSync p], Inr (isDirectory w p))"

definition fs_readFileSync :: "world \<Rightarrow> string \<Rightarrow> (string + string) proc" where
  "fs_readFileSync w p = ([ReadFileSync p], Inr (readFileSync w p))"

definition fs_readdirSync :: "world \<Rightarrow> string \<Rightarrow> dirent list proc" where
  "fs_readdirSync w p = ([ReaddirSync p], Inr (readdirSync w p))"

subsection \<open>JavaScript on these values\<close>

fun typeof :: "yaml \<Rightarrow> string" where
  "typeof YNull = ''object''"
| "typeof (YBool _) = ''boolean''"
| "typeof (YNum _) = ''number''"
| "typeof (YStr _) = ''string''"
| "typeof (YSeq _) = ''object''"
| "typeof (YMap _) = ''object''"

text \<open>
  Reading one of the properties \<open>authors\<close>, \<open>sponsor\<close>, \<open>discussion\<close>: \<open>None\<close> is
  \<open>undefined\<close>. Only a mapping can own them; reading a property of \<open>null\<close> throws.
\<close>

fun getprop :: "yaml \<Rightarrow> string \<Rightarrow> yaml option proc" where
  "getprop YNull k = throwTypeError"
| "getprop (YMap kvs) k = return (map_of kvs k)"
| "getprop _ k = return None"

text \<open>
  What \<open>for (const x of v)\<close> walks over: the elements of an array, the characters of a
  string; anything else is not iterable.
\<close>

fun iterate :: "yaml option \<Rightarrow> yaml list proc" where
  "iterate (Some (YSeq xs)) = return xs"
| "iterate (Some (YStr s)) = return (map (\<lambda>c. YStr [c]) s)"
| "iterate _ = throwTypeError"

definition startsWith :: "string \<Rightarrow> string \<Rightarrow> bool" where
  "startsWith s p = (take (length p) s = p)"

definition nl :: string where
  "nl = [CHR 0x0A]"

fun joinWith :: "string \<Rightarrow> string list \<Rightarrow> string" where
  "joinWith sep [] = []"
| "joinWith sep [x] = x"
| "joinWith sep (x # y # ys) = x @ sep @ joinWith sep (y # ys)"

text \<open>A length as a template literal prints it: in decimal.\<close>

definition digit_char :: "nat \<Rightarrow> char" where
  "digit_char d = ''0123456789'' ! d"

fun toString_nat :: "nat \<Rightarrow> string" where
  "toString_nat n =
     (if n < 10 then [digit_char n]
      else toString_nat (n div 10) @ [digit_char (n mod 10)])"

subsection \<open>The two regular expressions\<close>

definition isDigit :: "char \<Rightarrow> bool" where
  "isDigit c = (c \<in> set ''0123456789'')"

text \<open>Matching a literal at the front of the input: the rest of the input, if it matches.\<close>

fun literal :: "string \<Rightarrow> string \<Rightarrow> string option" where
  "literal [] s = Some s"
| "literal (p # ps) [] = None"
| "literal (p # ps) (c # s) = (if p = c then literal ps s else None)"

text \<open>Matching \<open>\d{n}\<close> at the front of the input.\<close>

fun digits :: "nat \<Rightarrow> string \<Rightarrow> string option" where
  "digits 0 s = Some s"
| "digits (Suc n) [] = None"
| "digits (Suc n) (c # s) = (if isDigit c then digits n s else None)"

text \<open>\<open>/^GAP-\d{4}$/.test(s)\<close>: the literal, four digits, then the end of the input.\<close>

definition test_GAP_d4 :: "string \<Rightarrow> bool" where
  "test_GAP_d4 s =
     (case literal ''GAP-'' s of
        None \<Rightarrow> False
      | Some r \<Rightarrow> (case digits 4 r of None \<Rightarrow> False | Some r' \<Rightarrow> r' = []))"

text \<open>\<open>/^GAP-/.test(s)\<close>.\<close>

definition test_GAP_prefix :: "string \<Rightarrow> bool" where
  "test_GAP_prefix s = (literal ''GAP-'' s \<noteq> None)"

section \<open>scripts/validate-structure.js\<close>

definition error :: "string \<Rightarrow> string \<Rightarrow> 'a proc" where
  "error gapName msg =
     andThen (console_error (gapName @ '': '' @ msg)) (\<lambda>_. process_exit 1)"

definition validateDirectoryNaming :: "world \<Rightarrow> string \<Rightarrow> string proc" where
  "validateDirectoryNaming w dirPath =
     (let dirName = basename w dirPath in
      if dirName = ''GAP-0'' then return dirName
      else andThen
        (if \<not> test_GAP_d4 dirName
         then error dirName
                ''Invalid directory name format. Expected GAP-NNNN (4 digits, zero-padded)''
         else return ())
        (\<lambda>_. return dirName))"

definition validateReadmeExists :: "world \<Rightarrow> string \<Rightarrow> string \<Rightarrow> unit proc" where
  "validateReadmeExists w dirPath gapName =
     (let readmePath = join w dirPath ''README.md'' in
      andThen (fs_existsSync w readmePath) (\<lambda>ex.
      if \<not> ex then error gapName ''No README.md file found'' else return ()))"

text \<open>The line of one schema error: its path, when it has one, then its message.\<close>

definition schema_error_line :: "schema_error \<Rightarrow> string" where
  "schema_error_line err =
     (let prefix = (if instancePath err \<noteq> [] then instancePath err @ '': '' else [])
      in prefix @ message err)"

text \<open>
  The loop over \<open>metadata.authors\<close>. \<open>validator.isEmail\<close> asserts that its argument is a
  string and throws a \<open>TypeError\<close> otherwise.
\<close>

fun authorsLoop :: "world \<Rightarrow> string \<Rightarrow> yaml list \<Rightarrow> unit proc" where
  \<open>authorsLoop w gapName [] = return ()\<close>
| \<open>authorsLoop w gapName (author # rest) =
     (case author of
        YStr a \<Rightarrow>
          (if \<not> isEmail w a True
           then error gapName
                  (''metadata.yml invalid author "'' @ a
                    @ ''" - must be "Name <email>" or a valid email'')
           else authorsLoop w gapName rest)
      | _ \<Rightarrow> throwTypeError)\<close>

definition validateMetadata :: "world \<Rightarrow> string \<Rightarrow> string \<Rightarrow> unit proc" where
  \<open>validateMetadata w dirPath gapName =
     (let metadataPath = join w dirPath ''metadata.yml'' in
      andThen (fs_existsSync w metadataPath) (\<lambda>ex.
      andThen (if \<not> ex then error gapName ''No metadata.yml file found'' else return ()) (\<lambda>_.
      andThen (fs_readFileSync w metadataPath) (\<lambda>r.
      andThen (case r of
                 Inl m \<Rightarrow> error gapName (''Failed to read metadata.yml: '' @ m)
               | Inr c \<Rightarrow> return c) (\<lambda>content.
      andThen (case parseYaml w content of
                 Inl m \<Rightarrow> error gapName (''Invalid YAML in metadata.yml: '' @ m)
               | Inr v \<Rightarrow> return v) (\<lambda>metadata.
      andThen (if typeof metadata \<noteq> ''object''
               then error gapName ''metadata.yml must contain a valid YAML object''
               else return ()) (\<lambda>_.
      andThen (case validateMetadataSchema w metadata of
                 Some errs \<Rightarrow>
                   error gapName
                     (''metadata.yml validation failed:'' @ nl @ nl
                       @ joinWith nl (map schema_error_line errs))
               | None \<Rightarrow> return ()) (\<lambda>_.
      andThen (getprop metadata ''authors'') (\<lambda>authors.
      andThen (iterate authors) (\<lambda>items.
      andThen (authorsLoop w gapName items) (\<lambda>_.
      andThen (getprop metadata ''sponsor'') (\<lambda>sponsor.
      andThen (case sponsor of
                 Some (YStr s) \<Rightarrow>
                   (if \<not> startsWith s ''@''
                    then error gapName
                           (''metadata.yml sponsor must be a GitHub username starting with @ (got "''
                             @ s @ ''")'')
                    else return ())
               | _ \<Rightarrow> throwTypeError) (\<lambda>_.
      andThen (getprop metadata ''discussion'') (\<lambda>discussion.
      (case discussion of
         Some (YStr u) \<Rightarrow>
           (if \<not> isURL w u
            then error gapName
                   (''metadata.yml discussion must be a valid URL (got "'' @ u @ ''")'')
            else return ())
       | _ \<Rightarrow> throwTypeError)))))))))))))))\<close>

definition discoverGapDirectories :: "world \<Rightarrow> string list proc" where
  "discoverGapDirectories w =
     (let rootDir = join w (script_dir w) ''..'' in
      andThen (fs_readdirSync w rootDir) (\<lambda>entries.
      return (map (\<lambda>entry. join w rootDir (name entry))
                (filter (\<lambda>entry. isDir entry \<and> test_GAP_prefix (name entry)) entries))))"

definition check_mark :: string where
  "check_mark = [CHR 0xE2, CHR 0x9C, CHR 0x93]"

definition validateGapDirectory :: "world \<Rightarrow> string \<Rightarrow> unit proc" where
  "validateGapDirectory w dirPath =
     andThen (fs_existsSync w dirPath) (\<lambda>ex.
     andThen (if \<not> ex
              then andThen (console_error (''Directory does not exist: '' @ dirPath))
                     (\<lambda>_. process_exit 1)
              else return ()) (\<lambda>_.
     andThen (fs_statSync_isDirectory w dirPath) (\<lambda>isdir.
     andThen (if \<not> isdir
              then andThen (console_error (''Not a directory: '' @ dirPath))
                     (\<lambda>_. process_exit 1)
              else return ()) (\<lambda>_.
     andThen (validateDirectoryNaming w dirPath) (\<lambda>gapName.
     andThen (validateReadmeExists w dirPath gapName) (\<lambda>_.
     andThen (validateMetadata w dirPath gapName) (\<lambda>_.
     console_log (check_mark @ '' '' @ gapName @ '' validated successfully''))))))))"

text \<open>The loop \<open>for (const dir of gapDirs) validateGapDirectory(dir)\<close>.\<close>

fun validateEach :: "world \<Rightarrow> string list \<Rightarrow> unit proc" where
  "validateEach w [] = return ()"
| "validateEach w (dir # dirs) =
     andThen (validateGapDirectory w dir) (\<lambda>_. validateEach w dirs)"

text \<open>\<open>main\<close>, given the positional arguments that \<open>parseArgs\<close> found.\<close>

definition main :: "world \<Rightarrow> string list \<Rightarrow> unit proc" where
  "main w positionals =
     (if length positionals = 0 then
        andThen (discoverGapDirectories w) (\<lambda>gapDirs.
        andThen (if length gapDirs = 0
                 then andThen (console_error ''No GAP directories found'')
                        (\<lambda>_. process_exit 1)
                 else return ()) (\<lambda>_.
        andThen (console_log (''Found '' @ toString_nat (length gapDirs) @ '' GAP director''
                   @ (if length gapDirs = 1 then ''y'' else ''ies''))) (\<lambda>_.
        validateEach w gapDirs)))
      else if length positionals = 1 then
        (let dirPath = positionals ! 0 in validateGapDirectory w dirPath)
      else
        andThen (console_error ''Usage: ./scripts/validate-structure.js [gap-directory]'')
          (\<lambda>_. process_exit 1))"

section \<open>The other file of the repository (src/unnamed/part_000)\<close>

text \<open>
  The earlier script takes exactly one directory. Its functions are embedded from its own
  text, under their names with the suffix \<open>_part0\<close>.
\<close>

definition error_part0 :: "string \<Rightarrow> string \<Rightarrow> 'a proc" where
  "error_part0 gapName msg =
     andThen (console_error (gapName @ '': '' @ msg)) (\<lambda>_. process_exit 1)"

definition validateDirectoryNaming_part0 :: "world \<Rightarrow> string \<Rightarrow> string proc" where
  "validateDirectoryNaming_part0 w dirPath =
     (let dirName = basename w dirPath in
      if dirName = ''GAP-0'' then return dirName
      else andThen
        (if \<not> test_GAP_d4 dirName
         then error_part0 dirName
                ''Invalid directory name format. Expected GAP-NNNN (4 digits, zero-padded)''
         else return ())
        (\<lambda>_. return dirName))"

definition validateReadmeExists_part0 :: "world \<Rightarrow> string \<Rightarrow> string \<Rightarrow> unit proc" where
  "validateReadmeExists_part0 w dirPath gapName =
     (let readmePath = join w dirPath ''README.md'' in
      andThen (fs_existsSync w readmePath) (\<lambda>ex.
      if \<not> ex then error_part0 gapName ''No README.md file found'' else return ()))"

fun authorsLoop_part0 :: "world \<Rightarrow> string \<Rightarrow> yaml list \<Rightarrow> unit proc" where
  \<open>authorsLoop_part0 w gapName [] = return ()\<close>
| \<open>authorsLoop_part0 w gapName (author # rest) =
     (case author of
        YStr a \<Rightarrow>
          (if \<not> isEmail w a True
           then error_part0 gapName
                  (''metadata.yml invalid author "'' @ a
                    @ ''" - must be "Name <email>" or a valid email'')
           else authorsLoop_part0 w gapName rest)
      | _ \<Rightarrow> throwTypeError)\<close>

definition validateMetadata_part0 :: "world \<Rightarrow> string \<Rightarrow> string \<Rightarrow> unit proc" where
  \<open>validateMetadata_part0 w dirPath gapName =
     (let metadataPath = join w dirPath ''metadata.yml'' in
      andThen (fs_existsSync w metadataPath) (\<lambda>ex.
      andThen (if \<not> ex then error_part0 gapName ''No metadata.yml file found''
               else return ()) (\<lambda>_.
      andThen (fs_readFileSync w metadataPath) (\<lambda>r.
      andThen (case r of
                 Inl m \<Rightarrow> error_part0 gapName (''Failed to read metadata.yml: '' @ m)
               | Inr c \<Rightarrow> return c) (\<lambda>content.
      andThen (case parseYaml w content of
                 Inl m \<Rightarrow> error_part0 gapName (''Invalid YAML in metadata.yml: '' @ m)
               | Inr v \<Rightarrow> return v) (\<lambda>metadata.
      andThen (if typeof metadata \<noteq> ''object''
               then error_part0 gapName ''metadata.yml must contain a valid YAML object''
               else return ()) (\<lambda>_.
      andThen (case validateMetadataSchema w metadata of
                 Some errs \<Rightarrow>
                   error_part0 gapName
                     (''metadata.yml validation failed:'' @ nl @ nl
                       @ joinWith nl (map schema_error_line errs))
               | None \<Rightarrow> return ()) (\<lambda>_.
      andThen (getprop metadata ''authors'') (\<lambda>authors.
      andThen (iterate authors) (\<lambda>items.
      andThen (authorsLoop_part0 w gapName items) (\<lambda>_.
      andThen (getprop metadata ''sponsor'') (\<lambda>sponsor.
      andThen (case sponsor of
                 Some (YStr s) \<Rightarrow>
                   (if \<not> startsWith s ''@''
                    then error_part0 gapName
                           (''metadata.yml sponsor must be a GitHub username starting with @ (got "''
                             @ s @ ''")'')
                    else return ())
               | _ \<Rightarrow> throwTypeError) (\<lambda>_.
      andThen (getprop metadata ''discussion'') (\<lambda>discussion.
      (case discussion of
         Some (YStr u) \<Rightarrow>
           (if \<not> isURL w u
            then error_part0 gapName
                   (''metadata.yml discussion must be a valid URL (got "'' @ u @ ''")'')
            else return ())
       | _ \<Rightarrow> throwTypeError)))))))))))))))\<close>

definition main_part0 :: "world \<Rightarrow> string list \<Rightarrow> unit proc" where
  "main_part0 w positionals =
     andThen (if length positionals \<noteq> 1
              then andThen
                     (console_error ''Usage: ./scripts/validate-structure.js <gap-directory>'')
                     (\<lambda>_. process_exit 1)
              else return ()) (\<lambda>_.
     (let dirPath = positionals ! 0 in
      andThen (fs_existsSync w dirPath) (\<lambda>ex.
      andThen (if \<not> ex
               then andThen (console_error (''Directory does not exist: '' @ dirPath))
                      (\<lambda>_. process_exit 1)
               else return ()) (\<lambda>_.
      andThen (fs_statSync_isDirectory w dirPath) (\<lambda>isdir.
      andThen (if \<not> isdir
               then andThen (console_error (''Not a directory: '' @ dirPath))
                      (\<lambda>_. process_exit 1)
               else return ()) (\<lambda>_.
      andThen (validateDirectoryNaming_part0 w dirPath) (\<lambda>gapName.
      andThen (validateReadmeExists_part0 w dirPath gapName) (\<lambda>_.
      validateMetadata_part0 w dirPath gapName))))))))"

section \<open>The naming convention, in the words of the specification\<close>

text \<open>
  The base name equals the literal \<open>GAP-0\<close>, or is the literal prefix \<open>GAP-\<close> followed by
  exactly four decimal digits.
\<close>

definition spec_name_ok :: "string \<Rightarrow> bool" where
  "spec_name_ok nm =
     (nm = ''GAP-0'' \<or>
      (\<exists>ds. nm = ''GAP-'' @ ds \<and> length ds = 4 \<and> (\<forall>c \<in> set ds. c \<in> set ''0123456789'')))"

section \<open>A sample repository\<close>

text \<open>
  A concrete platform on which the statements below are evaluated: a checkout at \<open>/repo\<close>
  with the script in \<open>/repo/scripts\<close>. The root lists, in this order: a valid proposal; a
  proposal whose sponsor lacks the \<open>@\<close>; another valid proposal; a proposal whose
  \<open>metadata.yml\<close> holds a sequence; a proposal whose \<open>metadata.yml\<close> is empty, which the
  parser reads as \<open>null\<close>; a proposal that breaks all three semantic rules at once; a
  proposal whose metadata has no \<open>discussion\<close>, an author without an email and a sponsor
  without the \<open>@\<close>; a plain file whose name starts with \<open>GAP-\<close>; the directory of the
  scripts. Paths are POSIX paths. The sample schema asks for an object with the properties
  \<open>authors\<close>, \<open>sponsor\<close> and \<open>discussion\<close>, and reports every one that is missing.
\<close>

definition sample_basename :: "string \<Rightarrow> string" where
  "sample_basename p =
     rev (takeWhile (\<lambda>c. c \<noteq> CHR ''/'') (dropWhile (\<lambda>c. c = CHR ''/'') (rev p)))"

definition sample_join :: "string \<Rightarrow> string \<Rightarrow> string" where
  "sample_join a b = (if b = ''..'' then ''/repo'' else a @ ''/'' @ b)"

definition good_yml :: string where
  \<open>good_yml = ''{authors: [Jane Doe <jane@example.com>], sponsor: "@alice", discussion: "https://example.com/discuss/42"}''\<close>

definition bad_sponsor_yml :: string where
  \<open>bad_sponsor_yml = ''{authors: [jane@example.com], sponsor: alice, discussion: "https://example.com/discuss/42"}''\<close>

definition sequence_yml :: string where
  "sequence_yml = ''[a, b]''"

definition all_bad_yml :: string where
  "all_bad_yml =
     ''{authors: [jane@example.com, Jane Doe, nobody], sponsor: alice, discussion: not a url}''"

definition no_discussion_yml :: string where
  "no_discussion_yml = ''{authors: [Jane Doe], sponsor: alice}''"

definition good_metadata :: yaml where
  "good_metadata =
     YMap [(''authors'', YSeq [YStr ''Jane Doe <jane@example.com>'']),
           (''sponsor'', YStr ''@alice''),
           (''discussion'', YStr ''https://example.com/discuss/42'')]"

definition bad_sponsor_metadata :: yaml where
  "bad_sponsor_metadata =
     YMap [(''authors'', YSeq [YStr ''jane@example.com'']),
           (''sponsor'', YStr ''alice''),
           (''discussion'', YStr ''https://example.com/discuss/42'')]"

definition all_bad_metadata :: yaml where
  "all_bad_metadata =
     YMap [(''authors'', YSeq [YStr ''jane@example.com'', YStr ''Jane Doe'', YStr ''nobody'']),
           (''sponsor'', YStr ''alice''),
           (''discussion'', YStr ''not a url'')]"

definition no_discussion_metadata :: yaml where
  "no_discussion_metadata =
     YMap [(''authors'', YSeq [YStr ''Jane Doe'']), (''sponsor'', YStr ''alice'')]"

definition sample_schema :: "yaml \<Rightarrow> schema_error list option" where
  "sample_schema v =
     (case v of
        YMap kvs \<Rightarrow>
          (case filter (\<lambda>k. map_of kvs k = None) [''authors'', ''sponsor'', ''discussion''] of
             [] \<Rightarrow> None
           | ks \<Rightarrow>
               Some (map (\<lambda>k. \<lparr>instancePath = [],
                                 message = ''must have required property ''
                                   @ [CHR 0x27] @ k @ [CHR 0x27]\<rparr>) ks))
      | _ \<Rightarrow> Some [\<lparr>instancePath = [], message = ''must be object''\<rparr>])"

definition sample_dirs :: "string list" where
  "sample_dirs =
     [''/repo'', ''/repo/GAP-0001'', ''/repo/GAP-0002'', ''/repo/GAP-0003'', ''/repo/GAP-0004'',
      ''/repo/GAP-0005'', ''/repo/GAP-0006'', ''/repo/GAP-0007'', ''/repo/scripts'']"

definition sample_files :: "(string \<times> string) list" where
  "sample_files =
     [(''/repo/GAP-0001/README.md'', ''# One''),
      (''/repo/GAP-0001/metadata.yml'', good_yml),
      (''/repo/GAP-0002/README.md'', ''# Two''),
      (''/repo/GAP-0002/metadata.yml'', bad_sponsor_yml),
      (''/repo/GAP-0003/README.md'', ''# Three''),
      (''/repo/GAP-0003/metadata.yml'', good_yml),
      (''/repo/GAP-0004/README.md'', ''# Four''),
      (''/repo/GAP-0004/metadata.yml'', sequence_yml),
      (''/repo/GAP-0005/README.md'', ''# Five''),
      (''/repo/GAP-0005/metadata.yml'', []),
      (''/repo/GAP-0006/README.md'', ''# Six''),
      (''/repo/GAP-0006/metadata.yml'', all_bad_yml),
      (''/repo/GAP-0007/README.md'', ''# Seven''),
      (''/repo/GAP-0007/metadata.yml'', no_discussion_yml),
      (''/repo/GAP-notes.txt'', ''notes'')]"

definition sample_world :: world where
  "sample_world =
     \<lparr> basename = sample_basename,
       join = sample_join,
       script_dir = ''/repo/scripts'',
       existsSync = (\<lambda>p. p \<in> set sample_dirs \<or> p \<in> set (map fst sample_files)),
       isDirectory = (\<lambda>p. p \<in> set sample_dirs),
       readFileSync = (\<lambda>p.
          case map_of sample_files p of
            Some c \<Rightarrow> Inr c
          | None \<Rightarrow> Inl ''ENOENT: no such file or directory''),
       readdirSync = (\<lambda>p.
          if p = ''/repo''
          then [\<lparr>name = ''GAP-0001'', isDir = True\<rparr>, \<lparr>name = ''GAP-0002'', isDir = True\<rparr>,
                \<lparr>name = ''GAP-0003'', isDir = True\<rparr>, \<lparr>name = ''GAP-0004'', isDir = True\<rparr>,
                \<lparr>name = ''GAP-0005'', isDir = True\<rparr>, \<lparr>name = ''GAP-0006'', isDir = True\<rparr>,
                \<lparr>name = ''GAP-0007'', isDir = True\<rparr>, \<lparr>name = ''GAP-notes.txt'', isDir = False\<rparr>,
                \<lparr>name = ''scripts'', isDir = True\<rparr>]
          else []),
       parseYaml = (\<lambda>c.
          if c = good_yml then Inr good_metadata
          else if c = bad_sponsor_yml then Inr bad_sponsor_metadata
          else if c = sequence_yml then Inr (YSeq [YStr ''a'', YStr ''b''])
          else if c = [] then Inr YNull
          else if c = all_bad_yml then Inr all_bad_metadata
          else if c = no_discussion_yml then Inr no_discussion_metadata
          else Inl ''unexpected content''),
       validateMetadataSchema = sample_schema,
       isEmail = (\<lambda>a allow_display_name.
          a = ''jane@example.com''
          \<or> (allow_display_name \<and> a = ''Jane Doe <jane@example.com>'')),
       isURL = (\<lambda>u. u = ''https://example.com/discuss/42'') \<rparr>"

text \<open>The same platform with a root that holds no proposal.\<close>

definition bare_world :: world where
  "bare_world =
     sample_world \<lparr> readdirSync := (\<lambda>p.
        if p = ''/repo''
        then [\<lparr>name = ''README.md'', isDir = False\<rparr>, \<lparr>name = ''GAP-notes.txt'', isDir = False\<rparr>,
              \<lparr>name = ''scripts'', isDir = True\<rparr>]
        else []) \<rparr>"

text \<open>
  The same platform with a root of broken entries: \<open>drafts\<close>, a directory with a name
  outside the convention; \<open>GAP-0008\<close> without a \<open>README.md\<close>; \<open>GAP-0009\<close> without a
  \<open>metadata.yml\<close>; \<open>GAP-0010\<close>, where \<open>metadata.yml\<close> is a directory and cannot be read;
  \<open>GAP-0011\<close>, where it is not YAML (the parser's message is shortened here); \<open>GAP-0012\<close>,
  where it holds a plain scalar.
\<close>

definition broken_world :: world where
  "broken_world =
     sample_world \<lparr>
       existsSync := (\<lambda>p. p \<in> set
         [''/repo'', ''/repo/drafts'', ''/repo/GAP-0008'',
          ''/repo/GAP-0009'', ''/repo/GAP-0009/README.md'',
          ''/repo/GAP-0010'', ''/repo/GAP-0010/README.md'', ''/repo/GAP-0010/metadata.yml'',
          ''/repo/GAP-0011'', ''/repo/GAP-0011/README.md'', ''/repo/GAP-0011/metadata.yml'',
          ''/repo/GAP-0012'', ''/repo/GAP-0012/README.md'', ''/repo/GAP-0012/metadata.yml'']),
       isDirectory := (\<lambda>p. p \<in> set
         [''/repo'', ''/repo/drafts'', ''/repo/GAP-0008'', ''/repo/GAP-0009'', ''/repo/GAP-0010'',
          ''/repo/GAP-0010/metadata.yml'', ''/repo/GAP-0011'', ''/repo/GAP-0012'']),
       readFileSync := (\<lambda>p.
          if p = ''/repo/GAP-0010/metadata.yml''
          then Inl ''EISDIR: illegal operation on a directory, read''
          else if p = ''/repo/GAP-0011/metadata.yml'' then Inr ''authors: [''
          else if p = ''/repo/GAP-0012/metadata.yml'' then Inr ''just text''
          else Inl ''ENOENT: no such file or directory''),
       parseYaml := (\<lambda>c.
          if c = ''authors: ['' then Inl ''Flow sequence must end with a ]''
          else if c = ''just text'' then Inr (YStr ''just text'')
          else Inl ''unexpected content'') \<rparr>"

section \<open>Predicates on runs\<close>

text \<open>An event that writes to one of the two streams.\<close>

fun is_output :: "event \<Rightarrow> bool" where
  "is_output (Stdout _) = True"
| "is_output (Stderr _) = True"
| "is_output _ = False"

text \<open>A text without a line break.\<close>

definition one_line :: "string \<Rightarrow> bool" where
  "one_line s = (CHR 0x0A \<notin> set s)"

text \<open>
  What \<open>error\<close> prints for the directory \<open>d\<close> and a description, and the run of
  \<open>validateGapDirectory\<close> on an existing directory that fails with it: the two looks at
  the directory, the further file-system calls \<open>calls\<close>, that one message on the error
  stream, and exit status 1.
\<close>

definition failure_message :: "world \<Rightarrow> string \<Rightarrow> string \<Rightarrow> string" where
  "failure_message w d desc = basename w d @ '': '' @ desc"

definition failure :: "world \<Rightarrow> string \<Rightarrow> event list \<Rightarrow> string \<Rightarrow> unit proc" where
  "failure w d calls desc =
     ([ExistsSync d, StatSync d] @ calls @ [Stderr (failure_message w d desc)], Inl (Exit 1))"

text \<open>A run that, if it exits, exits with a status other than 0.\<close>

definition halts_nonzero :: "'a proc \<Rightarrow> bool" where
  "halts_nonzero p = (snd p \<noteq> Inl (Exit 0))"

text \<open>
  A run that writes nothing unless it exits, and that, if it exits, exits with status 1
  after writing a single message, headed by the name \<open>g\<close>, to the error stream.
\<close>

fun reports :: "string \<Rightarrow> 'a proc \<Rightarrow> bool" where
  "reports g (tr, Inl (Exit n)) =
     (n = 1 \<and> (\<exists>pre desc. tr = pre @ [Stderr (g @ '': '' @ desc)]
                  \<and> (\<forall>e \<in> set pre. \<not> is_output e)))"
| "reports g (tr, Inl Uncaught) = (\<forall>e \<in> set tr. \<not> is_output e)"
| "reports g (tr, Inr a) = (\<forall>e \<in> set tr. \<not> is_output e)"

section \<open>Sequencing and the regular expressions\<close>

lemma andThen_return [simp]: "andThen (return a) f = f a"
  by (simp add: andThen_def return_def split: prod.splits)

lemma andThen_halt [simp]: "andThen (tr, Inl h) f = (tr, Inl h)"
  by (simp add: andThen_def)

lemma andThen_value [simp]: "andThen (tr, Inr a) f = (tr @ fst (f a), snd (f a))"
  by (simp add: andThen_def split: prod.splits)

lemma error_eq: "error g m = ([Stderr (g @ '': '' @ m)], Inl (Exit 1))"
  by (simp add: error_def console_error_def process_exit_def)

lemma literal_Some: "literal p s = Some r \<longleftrightarrow> s = p @ r"
  by (induction p s rule: literal.induct) auto

lemma digits_Some:
  "digits n s = Some r \<longleftrightarrow> (\<exists>ds. s = ds @ r \<and> length ds = n \<and> (\<forall>c \<in> set ds. isDigit c))"
proof (induction n s rule: digits.induct)
  case (1 s)
  show ?case by simp
next
  case (2 n)
  show ?case by simp
next
  case (3 n c s)
  show ?case
  proof (cases "isDigit c")
    case True
    with 3 show ?thesis
      apply simp
      apply (rule iffI)
       apply (erule exE)
      subgoal for ds by (rule exI[of _ "c # ds"]) simp
      apply (erule exE)
      subgoal for ds by (cases ds) auto
      done
  next
    case False
    then show ?thesis
      apply simp
      apply (rule allI)
      subgoal for ds by (cases ds) auto
      done
  qed
qed

lemma test_GAP_d4_iff:
  "test_GAP_d4 s \<longleftrightarrow> (\<exists>ds. s = ''GAP-'' @ ds \<and> length ds = 4 \<and> (\<forall>c \<in> set ds. isDigit c))"
proof -
  have "test_GAP_d4 s \<longleftrightarrow> (\<exists>r. literal ''GAP-'' s = Some r \<and> digits 4 r = Some [])"
    unfolding test_GAP_d4_def by (auto split: option.splits)
  also have "\<dots> \<longleftrightarrow> (\<exists>ds. s = ''GAP-'' @ ds \<and> length ds = 4 \<and> (\<forall>c \<in> set ds. isDigit c))"
    unfolding literal_Some digits_Some by auto
  finally show ?thesis .
qed

lemma test_GAP_prefix_iff: "test_GAP_prefix s \<longleftrightarrow> (\<exists>r. s = ''GAP-'' @ r)"
  unfolding test_GAP_prefix_def using literal_Some [of "''GAP-''" s] by auto

lemma andThen_assoc: "andThen (andThen m f) g = andThen m (\<lambda>a. andThen (f a) g)"
  by (auto simp: andThen_def split: prod.splits sum.splits)

lemma console_error_exit:
  "andThen (console_error s) (\<lambda>_. process_exit n) = ([Stderr s], Inl (Exit n))"
  by (simp add: console_error_def process_exit_def)

lemma naming_cases:
  "validateDirectoryNaming w d = return (basename w d)
   \<or> validateDirectoryNaming w d =
       ([Stderr (basename w d
          @ '': Invalid directory name format. Expected GAP-NNNN (4 digits, zero-padded)'')],
        Inl (Exit 1))"
  by (simp add: validateDirectoryNaming_def Let_def error_eq)

section \<open>The sample repository, evaluated\<close>

lemma sample_world_sel:
  "basename sample_world = sample_basename"
  "join sample_world = sample_join"
  "script_dir sample_world = ''/repo/scripts''"
  "existsSync sample_world = (\<lambda>p. p \<in> set sample_dirs \<or> p \<in> set (map fst sample_files))"
  "isDirectory sample_world = (\<lambda>p. p \<in> set sample_dirs)"
  "readFileSync sample_world = (\<lambda>p.
          case map_of sample_files p of
            Some c \<Rightarrow> Inr c
          | None \<Rightarrow> Inl ''ENOENT: no such file or directory'')"
  "readdirSync sample_world ''/repo'' =
     [\<lparr>name = ''GAP-0001'', isDir = True\<rparr>, \<lparr>name = ''GAP-0002'', isDir = True\<rparr>,
      \<lparr>name = ''GAP-0003'', isDir = True\<rparr>, \<lparr>name = ''GAP-0004'', isDir = True\<rparr>,
      \<lparr>name = ''GAP-0005'', isDir = True\<rparr>, \<lparr>name = ''GAP-0006'', isDir = True\<rparr>,
      \<lparr>name = ''GAP-0007'', isDir = True\<rparr>, \<lparr>name = ''GAP-notes.txt'', isDir = False\<rparr>,
      \<lparr>name = ''scripts'', isDir = True\<rparr>]"
  "parseYaml sample_world good_yml = Inr good_metadata"
  "parseYaml sample_world bad_sponsor_yml = Inr bad_sponsor_metadata"
  "parseYaml sample_world sequence_yml = Inr (YSeq [YStr ''a'', YStr ''b''])"
  "parseYaml sample_world [] = Inr YNull"
  "parseYaml sample_world all_bad_yml = Inr all_bad_metadata"
  "parseYaml sample_world no_discussion_yml = Inr no_discussion_metadata"
  "validateMetadataSchema sample_world = sample_schema"
  "isEmail sample_world = (\<lambda>a allow_display_name.
          a = ''jane@example.com''
          \<or> (allow_display_name \<and> a = ''Jane Doe <jane@example.com>''))"
  "isURL sample_world = (\<lambda>u. u = ''https://example.com/discuss/42'')"
  by (simp_all add: sample_world_def good_yml_def bad_sponsor_yml_def sequence_yml_def
      all_bad_yml_def no_discussion_yml_def)

lemmas sample_defs =
  sample_world_sel sample_basename_def sample_join_def sample_dirs_def sample_files_def
  good_metadata_def bad_sponsor_metadata_def all_bad_metadata_def
  no_discussion_metadata_def sample_schema_def

lemmas run_defs =
  validateGapDirectory_def validateDirectoryNaming_def validateReadmeExists_def
  validateMetadata_def fs_existsSync_def fs_statSync_isDirectory_def fs_readFileSync_def
  fs_readdirSync_def test_GAP_d4_def test_GAP_prefix_def isDigit_def eval_nat_numeral
  return_def console_log_def console_error_def process_exit_def error_eq startsWith_def
  throwTypeError_def Let_def schema_error_line_def nl_def

lemma sample_metadata_0001:
  \<open>validateMetadata sample_world ''/repo/GAP-0001'' ''GAP-0001'' =
     ([ExistsSync ''/repo/GAP-0001/metadata.yml'', ReadFileSync ''/repo/GAP-0001/metadata.yml''],
      Inr ())\<close>
  by (simp add: run_defs sample_defs)

lemma sample_metadata_0004:
  \<open>validateMetadata sample_world ''/repo/GAP-0004'' ''GAP-0004'' =
     ([ExistsSync ''/repo/GAP-0004/metadata.yml'', ReadFileSync ''/repo/GAP-0004/metadata.yml'',
       Stderr (''GAP-0004: metadata.yml validation failed:'' @ [CHR 0x0A, CHR 0x0A]
                @ ''must be object'')],
      Inl (Exit 1))\<close>
  by (simp add: run_defs sample_defs)

lemma sample_metadata_0005:
  \<open>validateMetadata sample_world ''/repo/GAP-0005'' ''GAP-0005'' =
     ([ExistsSync ''/repo/GAP-0005/metadata.yml'', ReadFileSync ''/repo/GAP-0005/metadata.yml'',
       Stderr (''GAP-0005: metadata.yml validation failed:'' @ [CHR 0x0A, CHR 0x0A]
                @ ''must be object'')],
      Inl (Exit 1))\<close>
  by (simp add: run_defs sample_defs)

lemma sample_GAP_0001:
  "validateGapDirectory sample_world ''/repo/GAP-0001'' =
     ([ExistsSync ''/repo/GAP-0001'', StatSync ''/repo/GAP-0001'',
       ExistsSync ''/repo/GAP-0001/README.md'', ExistsSync ''/repo/GAP-0001/metadata.yml'',
       ReadFileSync ''/repo/GAP-0001/metadata.yml'',
       Stdout (check_mark @ '' GAP-0001 validated successfully'')], Inr ())"
  by (simp add: run_defs sample_defs)

lemma sample_GAP_0002:
  \<open>validateGapDirectory sample_world ''/repo/GAP-0002'' =
     ([ExistsSync ''/repo/GAP-0002'', StatSync ''/repo/GAP-0002'',
       ExistsSync ''/repo/GAP-0002/README.md'', ExistsSync ''/repo/GAP-0002/metadata.yml'',
       ReadFileSync ''/repo/GAP-0002/metadata.yml'',
       Stderr ''GAP-0002: metadata.yml sponsor must be a GitHub username starting with @ (got "alice")''],
      Inl (Exit 1))\<close>
  by (simp add: run_defs sample_defs)

lemma sample_discovery:
  "discoverGapDirectories sample_world =
     ([ReaddirSync ''/repo''],
      Inr [''/repo/GAP-0001'', ''/repo/GAP-0002'', ''/repo/GAP-0003'', ''/repo/GAP-0004'',
           ''/repo/GAP-0005'', ''/repo/GAP-0006'', ''/repo/GAP-0007''])"
  by (simp add: discoverGapDirectories_def run_defs sample_defs)

section \<open>The naming check\<close>

text \<open>
  C2. For every directory path, the naming check returns the base name exactly when the
  base name is \<open>GAP-0\<close> or \<open>GAP-\<close> followed by exactly four decimal digits; for every other
  base name it prints the naming error and exits with status 1.
\<close>

theorem naming_check_iff_spec:
  "(validateDirectoryNaming w dirPath = return (basename w dirPath))
     = spec_name_ok (basename w dirPath)
   \<and> (\<not> spec_name_ok (basename w dirPath) \<longrightarrow>
        validateDirectoryNaming w dirPath =
          ([Stderr (basename w dirPath
             @ '': Invalid directory name format. Expected GAP-NNNN (4 digits, zero-padded)'')],
           Inl (Exit 1)))"
proof -
  have ok: "spec_name_ok nm \<longleftrightarrow> nm = ''GAP-0'' \<or> test_GAP_d4 nm" for nm
    unfolding spec_name_ok_def test_GAP_d4_iff isDigit_def by simp
  show ?thesis
    unfolding ok validateDirectoryNaming_def Let_def
    by (simp add: error_eq return_def)
qed

theorem naming_check_iff_spec_witness:
  "spec_name_ok ''GAP-0042''
   \<and> validateDirectoryNaming sample_world ''/repo/GAP-0042/'' = return ''GAP-0042''
   \<and> \<not> spec_name_ok ''GAP-42''
   \<and> validateDirectoryNaming sample_world ''/repo/GAP-42'' =
       ([Stderr ''GAP-42: Invalid directory name format. Expected GAP-NNNN (4 digits, zero-padded)''],
        Inl (Exit 1))"
proof -
  have b1: "basename sample_world ''/repo/GAP-0042/'' = ''GAP-0042''"
    by (simp add: sample_world_def sample_basename_def)
  have b2: "basename sample_world ''/repo/GAP-42'' = ''GAP-42''"
    by (simp add: sample_world_def sample_basename_def)
  have v1: "validateDirectoryNaming sample_world ''/repo/GAP-0042/'' = return ''GAP-0042''"
    by (simp add: validateDirectoryNaming_def b1 test_GAP_d4_def isDigit_def eval_nat_numeral)
  have v2: "validateDirectoryNaming sample_world ''/repo/GAP-42'' \<noteq> return ''GAP-42''"
    by (simp add: validateDirectoryNaming_def b2 test_GAP_d4_def isDigit_def error_eq
        return_def eval_nat_numeral)
  from naming_check_iff_spec [of sample_world "''/repo/GAP-0042/''"] v1 b1
  have s1: "spec_name_ok ''GAP-0042''" by simp
  from naming_check_iff_spec [of sample_world "''/repo/GAP-42''"] v2 b2
  have s2: "\<not> spec_name_ok ''GAP-42''" by simp
  from naming_check_iff_spec [of sample_world "''/repo/GAP-42''"] s2 b2
  have e2: "validateDirectoryNaming sample_world ''/repo/GAP-42'' =
       ([Stderr ''GAP-42: Invalid directory name format. Expected GAP-NNNN (4 digits, zero-padded)''],
        Inl (Exit 1))" by simp
  from s1 v1 s2 e2 show ?thesis by simp
qed

section \<open>The metadata checks\<close>

lemma authorsLoop_strings:
  \<open>authorsLoop w g (map YStr as) =
     (case find (\<lambda>a. \<not> isEmail w a True) as of
        None \<Rightarrow> ([], Inr ())
      | Some a \<Rightarrow>
          ([Stderr (g @ '': metadata.yml invalid author "'' @ a
              @ ''" - must be "Name <email>" or a valid email'')],
           Inl (Exit 1)))\<close>
  by (induction as) (simp_all add: return_def error_eq)

lemma find_first:
  "\<forall>x \<in> set ok. \<not> P x \<Longrightarrow> P bad \<Longrightarrow> find P (ok @ bad # rest) = Some bad"
  by (induction ok) simp_all

lemma find_None_all: "find P xs = None \<longleftrightarrow> (\<forall>x \<in> set xs. \<not> P x)"
  by (induction xs) simp_all


lemma validateMetadata_shaped:
  assumes "existsSync w (join w d ''metadata.yml'')"
    and "readFileSync w (join w d ''metadata.yml'') = Inr c"
    and "parseYaml w c = Inr (YMap kvs)"
    and "map_of kvs ''authors'' = Some (YSeq (map YStr as))"
    and "map_of kvs ''sponsor'' = Some (YStr s)"
    and "map_of kvs ''discussion'' = Some (YStr u)"
  shows \<open>validateMetadata w d g =
     (case validateMetadataSchema w (YMap kvs) of
        Some errs \<Rightarrow>
          ([ExistsSync (join w d ''metadata.yml''), ReadFileSync (join w d ''metadata.yml''),
            Stderr (g @ '': metadata.yml validation failed:'' @ nl @ nl
                      @ joinWith nl (map schema_error_line errs))],
           Inl (Exit 1))
      | None \<Rightarrow>
         (case find (\<lambda>a. \<not> isEmail w a True) as of
            Some a \<Rightarrow>
              ([ExistsSync (join w d ''metadata.yml''), ReadFileSync (join w d ''metadata.yml''),
                Stderr (g @ '': metadata.yml invalid author "'' @ a
                  @ ''" - must be "Name <email>" or a valid email'')],
               Inl (Exit 1))
          | None \<Rightarrow>
             if \<not> startsWith s ''@'' then
               ([ExistsSync (join w d ''metadata.yml''), ReadFileSync (join w d ''metadata.yml''),
                 Stderr (g @ '': metadata.yml sponsor must be a GitHub username starting with @ (got "''
                           @ s @ ''")'')],
                Inl (Exit 1))
             else if \<not> isURL w u then
               ([ExistsSync (join w d ''metadata.yml''), ReadFileSync (join w d ''metadata.yml''),
                 Stderr (g @ '': metadata.yml discussion must be a valid URL (got "'' @ u @ ''")'')],
                Inl (Exit 1))
             else
               ([ExistsSync (join w d ''metadata.yml''), ReadFileSync (join w d ''metadata.yml'')],
                Inr ())))\<close>
  unfolding validateMetadata_def Let_def
  by (simp add: assms fs_existsSync_def fs_readFileSync_def authorsLoop_strings error_eq
      return_def split: option.splits)

lemma typeof_object_iff:
  "typeof v = ''object'' \<longleftrightarrow> v = YNull \<or> (\<exists>xs. v = YSeq xs) \<or> (\<exists>kvs. v = YMap kvs)"
  by (cases v) simp_all

lemma type_check_rejects_scalars:
  assumes "existsSync w (join w d ''metadata.yml'')"
    and "readFileSync w (join w d ''metadata.yml'') = Inr c"
    and "parseYaml w c = Inr v"
    and "typeof v \<noteq> ''object''"
  shows "validateMetadata w d g =
     ([ExistsSync (join w d ''metadata.yml''), ReadFileSync (join w d ''metadata.yml''),
       Stderr (g @ '': metadata.yml must contain a valid YAML object'')],
      Inl (Exit 1))"
  unfolding validateMetadata_def Let_def
  by (simp add: assms fs_existsSync_def fs_readFileSync_def error_eq)

lemma validateMetadata_schema_fails:
  assumes "existsSync w (join w d ''metadata.yml'')"
    and "readFileSync w (join w d ''metadata.yml'') = Inr c"
    and "parseYaml w c = Inr v"
    and "typeof v = ''object''"
    and "validateMetadataSchema w v = Some errs"
  shows "validateMetadata w d g =
     ([ExistsSync (join w d ''metadata.yml''), ReadFileSync (join w d ''metadata.yml''),
       Stderr (g @ '': metadata.yml validation failed:'' @ nl @ nl
                 @ joinWith nl (map schema_error_line errs))],
      Inl (Exit 1))"
  unfolding validateMetadata_def Let_def
  by (simp add: assms fs_existsSync_def fs_readFileSync_def error_eq)

lemma validateMetadata_missing:
  assumes "\<not> existsSync w (join w d ''metadata.yml'')"
  shows "validateMetadata w d g =
     ([ExistsSync (join w d ''metadata.yml'')] @ []
        @ [Stderr (g @ '': '' @ ''No metadata.yml file found'')], Inl (Exit 1))"
  unfolding validateMetadata_def Let_def
  by (simp add: assms fs_existsSync_def error_eq)

lemma validateMetadata_read_fails:
  assumes "existsSync w (join w d ''metadata.yml'')"
    and "readFileSync w (join w d ''metadata.yml'') = Inl m"
  shows "validateMetadata w d g =
     ([ExistsSync (join w d ''metadata.yml'')] @ [ReadFileSync (join w d ''metadata.yml'')]
        @ [Stderr (g @ '': '' @ ''Failed to read metadata.yml: '' @ m)], Inl (Exit 1))"
  unfolding validateMetadata_def Let_def
  by (simp add: assms fs_existsSync_def fs_readFileSync_def error_eq)

lemma validateMetadata_parse_fails:
  assumes "existsSync w (join w d ''metadata.yml'')"
    and "readFileSync w (join w d ''metadata.yml'') = Inr c"
    and "parseYaml w c = Inl m"
  shows "validateMetadata w d g =
     ([ExistsSync (join w d ''metadata.yml'')] @ [ReadFileSync (join w d ''metadata.yml'')]
        @ [Stderr (g @ '': '' @ ''Invalid YAML in metadata.yml: '' @ m)], Inl (Exit 1))"
  unfolding validateMetadata_def Let_def
  by (simp add: assms fs_existsSync_def fs_readFileSync_def error_eq)

lemma validateMetadata_author_fails:
  assumes "existsSync w (join w d ''metadata.yml'')"
    and "readFileSync w (join w d ''metadata.yml'') = Inr c"
    and "parseYaml w c = Inr (YMap kvs)"
    and "validateMetadataSchema w (YMap kvs) = None"
    and "map_of kvs ''authors'' = Some (YSeq (map YStr (ok @ bad # rest)))"
    and "\<forall>a \<in> set ok. isEmail w a True"
    and "\<not> isEmail w bad True"
  shows \<open>validateMetadata w d g =
     ([ExistsSync (join w d ''metadata.yml''), ReadFileSync (join w d ''metadata.yml''),
       Stderr (g @ '': metadata.yml invalid author "'' @ bad
         @ ''" - must be "Name <email>" or a valid email'')],
      Inl (Exit 1))\<close>
proof -
  have first: "find (\<lambda>a. \<not> isEmail w a True) (ok @ bad # rest) = Some bad"
    using find_first [of ok "\<lambda>a. \<not> isEmail w a True" bad rest] assms(6,7) by simp
  show ?thesis
    unfolding validateMetadata_def Let_def
    by (simp add: assms(1-5) fs_existsSync_def fs_readFileSync_def authorsLoop_strings first
        del: map_append)
qed

lemma validateMetadata_sponsor_fails:
  assumes "existsSync w (join w d ''metadata.yml'')"
    and "readFileSync w (join w d ''metadata.yml'') = Inr c"
    and "parseYaml w c = Inr (YMap kvs)"
    and "validateMetadataSchema w (YMap kvs) = None"
    and "map_of kvs ''authors'' = Some (YSeq (map YStr as))"
    and "\<forall>a \<in> set as. isEmail w a True"
    and "map_of kvs ''sponsor'' = Some (YStr s)"
    and "\<not> startsWith s ''@''"
  shows \<open>validateMetadata w d g =
     ([ExistsSync (join w d ''metadata.yml''), ReadFileSync (join w d ''metadata.yml''),
       Stderr (g @ '': metadata.yml sponsor must be a GitHub username starting with @ (got "''
                 @ s @ ''")'')],
      Inl (Exit 1))\<close>
proof -
  have all: "find (\<lambda>a. \<not> isEmail w a True) as = None"
    using find_None_all [of "\<lambda>a. \<not> isEmail w a True" as] assms(6) by simp
  show ?thesis
    unfolding validateMetadata_def Let_def
    by (simp add: assms(1-5,7,8) fs_existsSync_def fs_readFileSync_def authorsLoop_strings all
        error_eq)
qed





text \<open>
  C4. For a metadata file that is read and parsed to a mapping: when the schema rejects it,
  the schema error is the outcome, whatever its authors, sponsor and discussion are, so no
  semantic check is reported before the schema has accepted the record. When the schema
  accepts it, and \<open>authors\<close> is a sequence of strings and \<open>sponsor\<close> and \<open>discussion\<close> are
  strings, the outcome is the error of the first invalid author, whatever the sponsor and
  the discussion are; with every author valid, the sponsor error, whatever the discussion
  is; with the sponsor valid too, the discussion error; and otherwise success. Each failing
  outcome prints one message and exits with status 1.
\<close>

theorem semantic_checks_in_order:
  assumes "existsSync w (join w d ''metadata.yml'')"
    and "readFileSync w (join w d ''metadata.yml'') = Inr c"
    and "parseYaml w c = Inr (YMap kvs)"
  shows \<open>(validateMetadataSchema w (YMap kvs) = Some errs \<longrightarrow>
            validateMetadata w d g =
              ([ExistsSync (join w d ''metadata.yml''), ReadFileSync (join w d ''metadata.yml''),
                Stderr (g @ '': metadata.yml validation failed:'' @ nl @ nl
                          @ joinWith nl (map schema_error_line errs))],
               Inl (Exit 1)))
       \<and> (validateMetadataSchema w (YMap kvs) = None
            \<and> map_of kvs ''authors'' = Some (YSeq (map YStr as))
            \<and> map_of kvs ''sponsor'' = Some (YStr s)
            \<and> map_of kvs ''discussion'' = Some (YStr u) \<longrightarrow>
            (as = ok @ bad # rest \<and> (\<forall>a \<in> set ok. isEmail w a True) \<and> \<not> isEmail w bad True \<longrightarrow>
               validateMetadata w d g =
                 ([ExistsSync (join w d ''metadata.yml''), ReadFileSync (join w d ''metadata.yml''),
                   Stderr (g @ '': metadata.yml invalid author "'' @ bad
                     @ ''" - must be "Name <email>" or a valid email'')],
                  Inl (Exit 1)))
          \<and> ((\<forall>a \<in> set as. isEmail w a True) \<and> \<not> startsWith s ''@'' \<longrightarrow>
               validateMetadata w d g =
                 ([ExistsSync (join w d ''metadata.yml''), ReadFileSync (join w d ''metadata.yml''),
                   Stderr (g @ '': metadata.yml sponsor must be a GitHub username starting with @ (got "''
                             @ s @ ''")'')],
                  Inl (Exit 1)))
          \<and> ((\<forall>a \<in> set as. isEmail w a True) \<and> startsWith s ''@'' \<and> \<not> isURL w u \<longrightarrow>
               validateMetadata w d g =
                 ([ExistsSync (join w d ''metadata.yml''), ReadFileSync (join w d ''metadata.yml''),
                   Stderr (g @ '': metadata.yml discussion must be a valid URL (got "'' @ u @ ''")'')],
                  Inl (Exit 1)))
          \<and> ((\<forall>a \<in> set as. isEmail w a True) \<and> startsWith s ''@'' \<and> isURL w u \<longrightarrow>
               validateMetadata w d g =
                 ([ExistsSync (join w d ''metadata.yml''), ReadFileSync (join w d ''metadata.yml'')],
                  Inr ())))\<close>
    (is "(?S \<longrightarrow> ?A) \<and> (?H \<longrightarrow> ?B)")
proof (rule conjI)
  show "?S \<longrightarrow> ?A"
  proof (rule impI)
    assume ?S
    with assms show ?A
      by (intro validateMetadata_schema_fails) simp_all
  qed
next
  show "?H \<longrightarrow> ?B"
  proof (rule impI)
    assume h: ?H
    then have sch: "validateMetadataSchema w (YMap kvs) = None"
      and a: "map_of kvs ''authors'' = Some (YSeq (map YStr as))"
      and s: "map_of kvs ''sponsor'' = Some (YStr s)"
      and u: "map_of kvs ''discussion'' = Some (YStr u)"
      by simp_all
    note shaped = validateMetadata_shaped [OF assms a s u, of g, unfolded sch option.case]
    have all: "(\<forall>a \<in> set as. isEmail w a True) \<Longrightarrow> find (\<lambda>a. \<not> isEmail w a True) as = None"
      using find_None_all [of "\<lambda>a. \<not> isEmail w a True" as] by simp
    have first: "(\<forall>a \<in> set ok. isEmail w a True) \<Longrightarrow> \<not> isEmail w bad True
        \<Longrightarrow> find (\<lambda>a. \<not> isEmail w a True) (ok @ bad # rest) = Some bad"
      using find_first [of ok "\<lambda>a. \<not> isEmail w a True" bad rest] by simp
    show ?B
      unfolding shaped
      by (intro conjI impI; (elim conjE)?; simp add: all first)
  qed
qed

theorem semantic_checks_in_order_witness:
  \<open>\<not> isEmail sample_world ''Jane Doe'' True
   \<and> \<not> startsWith ''alice'' ''@''
   \<and> \<not> isURL sample_world ''not a url''
   \<and> validateMetadata sample_world ''/repo/GAP-0006'' ''GAP-0006'' =
       ([ExistsSync ''/repo/GAP-0006/metadata.yml'', ReadFileSync ''/repo/GAP-0006/metadata.yml'',
         Stderr ''GAP-0006: metadata.yml invalid author "Jane Doe" - must be "Name <email>" or a valid email''],
        Inl (Exit 1))
   \<and> validateMetadata sample_world ''/repo/GAP-0007'' ''GAP-0007'' =
       ([ExistsSync ''/repo/GAP-0007/metadata.yml'', ReadFileSync ''/repo/GAP-0007/metadata.yml'',
         Stderr (''GAP-0007: metadata.yml validation failed:'' @ [CHR 0x0A, CHR 0x0A]
                  @ ''must have required property '' @ [CHR 0x27] @ ''discussion'' @ [CHR 0x27])],
        Inl (Exit 1))\<close>
proof -
  let ?kvs = "[(''authors'', YSeq (map YStr [''jane@example.com'', ''Jane Doe'', ''nobody''])),
               (''sponsor'', YStr ''alice''), (''discussion'', YStr ''not a url'')]"
  let ?kvs7 = "[(''authors'', YSeq [YStr ''Jane Doe'']), (''sponsor'', YStr ''alice'')]"
  have j: "join sample_world ''/repo/GAP-0006'' ''metadata.yml'' = ''/repo/GAP-0006/metadata.yml''"
    and j7: "join sample_world ''/repo/GAP-0007'' ''metadata.yml'' = ''/repo/GAP-0007/metadata.yml''"
    by (simp_all add: sample_world_sel sample_join_def)
  have e: "existsSync sample_world (join sample_world ''/repo/GAP-0006'' ''metadata.yml'')"
    and e7: "existsSync sample_world (join sample_world ''/repo/GAP-0007'' ''metadata.yml'')"
    unfolding j j7 by (simp_all add: sample_world_sel sample_dirs_def sample_files_def)
  have rd: "readFileSync sample_world (join sample_world ''/repo/GAP-0006'' ''metadata.yml'')
      = Inr all_bad_yml"
    and rd7: "readFileSync sample_world (join sample_world ''/repo/GAP-0007'' ''metadata.yml'')
      = Inr no_discussion_yml"
    unfolding j j7 by (simp_all add: sample_world_sel sample_files_def)
  have pr: "parseYaml sample_world all_bad_yml = Inr (YMap ?kvs)"
    and pr7: "parseYaml sample_world no_discussion_yml = Inr (YMap ?kvs7)"
    by (simp_all add: sample_world_sel all_bad_metadata_def no_discussion_metadata_def)
  have a: "map_of ?kvs ''authors''
      = Some (YSeq (map YStr [''jane@example.com'', ''Jane Doe'', ''nobody'']))" by simp
  have s: "map_of ?kvs ''sponsor'' = Some (YStr ''alice'')" by simp
  have u: "map_of ?kvs ''discussion'' = Some (YStr ''not a url'')" by simp
  have sch: "validateMetadataSchema sample_world (YMap ?kvs) = None"
    by (simp add: sample_world_sel sample_schema_def)
  have sch7: "validateMetadataSchema sample_world (YMap ?kvs7) =
      Some [\<lparr>instancePath = [], message = ''must have required property ''
                                   @ [CHR 0x27] @ ''discussion'' @ [CHR 0x27]\<rparr>]"
    by (simp add: sample_world_sel sample_schema_def)
  have bad: "\<not> isEmail sample_world ''Jane Doe'' True"
    by (simp add: sample_world_sel)
  have okk: "\<forall>a \<in> set [''jane@example.com'']. isEmail sample_world a True"
    by (simp add: sample_world_sel)
  have spl: "[''jane@example.com'', ''Jane Doe'', ''nobody'']
      = [''jane@example.com''] @ ''Jane Doe'' # [''nobody'']" by simp
  have sp: "\<not> startsWith ''alice'' ''@''" by (simp add: startsWith_def)
  have ur: "\<not> isURL sample_world ''not a url''" by (simp add: sample_world_sel)
  note order = semantic_checks_in_order [OF e rd pr, where g = "''GAP-0006''"
      and errs = "[]" and ok = "[''jane@example.com'']" and bad = "''Jane Doe''"
      and rest = "[''nobody'']"]
  note author = order [THEN conjunct2, THEN mp, OF conjI [OF sch conjI [OF a conjI [OF s u]]],
      THEN conjunct1, THEN mp, OF conjI [OF spl conjI [OF okk bad]]]
  have v: \<open>validateMetadata sample_world ''/repo/GAP-0006'' ''GAP-0006'' =
       ([ExistsSync ''/repo/GAP-0006/metadata.yml'', ReadFileSync ''/repo/GAP-0006/metadata.yml'',
         Stderr ''GAP-0006: metadata.yml invalid author "Jane Doe" - must be "Name <email>" or a valid email''],
        Inl (Exit 1))\<close>
    using author unfolding j by simp
  note schema = semantic_checks_in_order [OF e7 rd7 pr7, where g = "''GAP-0007''"
      and as = "[]" and s = "[]" and u = "[]" and ok = "[]" and bad = "[]" and rest = "[]",
      THEN conjunct1, THEN mp, OF sch7]
  have v7: \<open>validateMetadata sample_world ''/repo/GAP-0007'' ''GAP-0007'' =
       ([ExistsSync ''/repo/GAP-0007/metadata.yml'', ReadFileSync ''/repo/GAP-0007/metadata.yml'',
         Stderr (''GAP-0007: metadata.yml validation failed:'' @ [CHR 0x0A, CHR 0x0A]
                  @ ''must have required property '' @ [CHR 0x27] @ ''discussion'' @ [CHR 0x27])],
        Inl (Exit 1))\<close>
    using schema unfolding j7 by (simp add: nl_def schema_error_line_def)
  from bad sp ur v v7 show ?thesis by (intro conjI)
qed

text \<open>
  C7. For such a metadata file that the schema accepts and whose authors are all valid:
  when the sponsor string begins with the character \<open>@\<close>, whatever follows it, the
  sponsor check passes and the outcome is that of the discussion check alone; in every
  other case, the empty string included, the outcome is the sponsor error.
\<close>

theorem sponsor_check_first_character:
  assumes "existsSync w (join w d ''metadata.yml'')"
    and "readFileSync w (join w d ''metadata.yml'') = Inr c"
    and "parseYaml w c = Inr (YMap kvs)"
    and "map_of kvs ''authors'' = Some (YSeq (map YStr as))"
    and "map_of kvs ''sponsor'' = Some (YStr s)"
    and "map_of kvs ''discussion'' = Some (YStr u)"
    and "validateMetadataSchema w (YMap kvs) = None"
    and "\<forall>a \<in> set as. isEmail w a True"
  shows \<open>validateMetadata w d g =
     (if \<exists>rest. s = CHR ''@'' # rest then
        (if \<not> isURL w u then
           ([ExistsSync (join w d ''metadata.yml''), ReadFileSync (join w d ''metadata.yml''),
             Stderr (g @ '': metadata.yml discussion must be a valid URL (got "'' @ u @ ''")'')],
            Inl (Exit 1))
         else
           ([ExistsSync (join w d ''metadata.yml''), ReadFileSync (join w d ''metadata.yml'')],
            Inr ()))
      else
        ([ExistsSync (join w d ''metadata.yml''), ReadFileSync (join w d ''metadata.yml''),
          Stderr (g @ '': metadata.yml sponsor must be a GitHub username starting with @ (got "''
                    @ s @ ''")'')],
         Inl (Exit 1)))\<close>
proof -
  have sw: "startsWith s ''@'' \<longleftrightarrow> (\<exists>rest. s = CHR ''@'' # rest)"
    by (cases s) (simp_all add: startsWith_def)
  have all: "find (\<lambda>a. \<not> isEmail w a True) as = None"
    using find_None_all [of "\<lambda>a. \<not> isEmail w a True" as] assms(8) by simp
  show ?thesis
    unfolding validateMetadata_shaped [OF assms(1-6), of g] assms(7) all sw [symmetric]
    by simp
qed

theorem sponsor_check_first_character_witness:
  \<open>validateMetadata sample_world ''/repo/GAP-0001'' ''GAP-0001'' =
     ([ExistsSync ''/repo/GAP-0001/metadata.yml'', ReadFileSync ''/repo/GAP-0001/metadata.yml''],
      Inr ())
   \<and> validateMetadata sample_world ''/repo/GAP-0002'' ''GAP-0002'' =
     ([ExistsSync ''/repo/GAP-0002/metadata.yml'', ReadFileSync ''/repo/GAP-0002/metadata.yml'',
       Stderr ''GAP-0002: metadata.yml sponsor must be a GitHub username starting with @ (got "alice")''],
      Inl (Exit 1))\<close>
proof -
  let ?k1 = "[(''authors'', YSeq (map YStr [''Jane Doe <jane@example.com>''])),
              (''sponsor'', YStr ''@alice''),
              (''discussion'', YStr ''https://example.com/discuss/42'')]"
  let ?k2 = "[(''authors'', YSeq (map YStr [''jane@example.com''])),
              (''sponsor'', YStr ''alice''),
              (''discussion'', YStr ''https://example.com/discuss/42'')]"
  have j1: "join sample_world ''/repo/GAP-0001'' ''metadata.yml'' = ''/repo/GAP-0001/metadata.yml''"
    and j2: "join sample_world ''/repo/GAP-0002'' ''metadata.yml'' = ''/repo/GAP-0002/metadata.yml''"
    by (simp_all add: sample_world_sel sample_join_def)
  have e1: "existsSync sample_world (join sample_world ''/repo/GAP-0001'' ''metadata.yml'')"
    and e2: "existsSync sample_world (join sample_world ''/repo/GAP-0002'' ''metadata.yml'')"
    unfolding j1 j2 by (simp_all add: sample_world_sel sample_dirs_def sample_files_def)
  have r1: "readFileSync sample_world (join sample_world ''/repo/GAP-0001'' ''metadata.yml'')
      = Inr good_yml"
    and r2: "readFileSync sample_world (join sample_world ''/repo/GAP-0002'' ''metadata.yml'')
      = Inr bad_sponsor_yml"
    unfolding j1 j2 by (simp_all add: sample_world_sel sample_files_def)
  have p1: "parseYaml sample_world good_yml = Inr (YMap ?k1)"
    and p2: "parseYaml sample_world bad_sponsor_yml = Inr (YMap ?k2)"
    by (simp_all add: sample_world_sel good_metadata_def bad_sponsor_metadata_def)
  have a1: "map_of ?k1 ''authors'' = Some (YSeq (map YStr [''Jane Doe <jane@example.com>'']))"
    and s1: "map_of ?k1 ''sponsor'' = Some (YStr ''@alice'')"
    and u1: "map_of ?k1 ''discussion'' = Some (YStr ''https://example.com/discuss/42'')"
    and a2: "map_of ?k2 ''authors'' = Some (YSeq (map YStr [''jane@example.com'']))"
    and s2: "map_of ?k2 ''sponsor'' = Some (YStr ''alice'')"
    and u2: "map_of ?k2 ''discussion'' = Some (YStr ''https://example.com/discuss/42'')"
    by simp_all
  have c1: "validateMetadataSchema sample_world (YMap ?k1) = None"
    and c2: "validateMetadataSchema sample_world (YMap ?k2) = None"
    by (simp_all add: sample_world_sel sample_schema_def)
  have m1: "\<forall>a \<in> set [''Jane Doe <jane@example.com>'']. isEmail sample_world a True"
    and m2: "\<forall>a \<in> set [''jane@example.com'']. isEmail sample_world a True"
    by (simp_all add: sample_world_sel)
  have v1: \<open>validateMetadata sample_world ''/repo/GAP-0001'' ''GAP-0001'' =
     ([ExistsSync ''/repo/GAP-0001/metadata.yml'', ReadFileSync ''/repo/GAP-0001/metadata.yml''],
      Inr ())\<close>
    using sponsor_check_first_character [OF e1 r1 p1 a1 s1 u1 c1 m1, of "''GAP-0001''"]
    unfolding j1 by (simp add: sample_world_sel)
  have v2: \<open>validateMetadata sample_world ''/repo/GAP-0002'' ''GAP-0002'' =
     ([ExistsSync ''/repo/GAP-0002/metadata.yml'', ReadFileSync ''/repo/GAP-0002/metadata.yml'',
       Stderr ''GAP-0002: metadata.yml sponsor must be a GitHub username starting with @ (got "alice")''],
      Inl (Exit 1))\<close>
    using sponsor_check_first_character [OF e2 r2 p2 a2 s2 u2 c2 m2, of "''GAP-0002''"]
    unfolding j2 by simp
  from v1 v2 show ?thesis by (rule conjI)
qed

text \<open>
  C3. The type check of step 5 is \<open>typeof metadata !== "object"\<close>, and \<open>typeof\<close> answers
  \<open>object\<close> for an array and for \<open>null\<close> as well. In the sample repository the metadata
  of \<open>GAP-0004\<close> is a sequence and that of \<open>GAP-0005\<close> is \<open>null\<close>: both pass the type
  check, the schema is consulted, and what is printed is the schema's error, not
  \<open>metadata.yml must contain a valid YAML object\<close>.
\<close>

theorem type_check_lets_sequence_and_null_through:
  \<open>typeof (YSeq [YStr ''a'', YStr ''b'']) = ''object''
   \<and> validateMetadata sample_world ''/repo/GAP-0004'' ''GAP-0004'' =
       ([ExistsSync ''/repo/GAP-0004/metadata.yml'', ReadFileSync ''/repo/GAP-0004/metadata.yml'',
         Stderr (''GAP-0004: metadata.yml validation failed:'' @ [CHR 0x0A, CHR 0x0A]
                  @ ''must be object'')],
        Inl (Exit 1))
   \<and> typeof YNull = ''object''
   \<and> validateMetadata sample_world ''/repo/GAP-0005'' ''GAP-0005'' =
       ([ExistsSync ''/repo/GAP-0005/metadata.yml'', ReadFileSync ''/repo/GAP-0005/metadata.yml'',
         Stderr (''GAP-0005: metadata.yml validation failed:'' @ [CHR 0x0A, CHR 0x0A]
                  @ ''must be object'')],
        Inl (Exit 1))\<close>
  using sample_metadata_0004 sample_metadata_0005 by simp

section \<open>Halting\<close>

lemma halts_nonzero_andThen:
  "halts_nonzero m \<Longrightarrow> (\<And>a. halts_nonzero (f a)) \<Longrightarrow> halts_nonzero (andThen m f)"
proof -
  assume m: "halts_nonzero m" and f: "\<And>a. halts_nonzero (f a)"
  obtain tr r where mr: "m = (tr, r)" by (cases m)
  show ?thesis
  proof (cases r)
    case (Inl h)
    with m mr show ?thesis by (simp add: halts_nonzero_def)
  next
    case (Inr a)
    with f [of a] mr show ?thesis by (simp add: halts_nonzero_def)
  qed
qed

lemma halts_nonzero_basic [simp]:
  "halts_nonzero (return a)" "halts_nonzero (error g m)" "halts_nonzero throwTypeError"
  "halts_nonzero (console_log s)" "halts_nonzero (console_error s)"
  "halts_nonzero (process_exit (Suc 0))"
  "halts_nonzero (fs_existsSync w p)" "halts_nonzero (fs_statSync_isDirectory w p)"
  "halts_nonzero (fs_readFileSync w p)" "halts_nonzero (fs_readdirSync w p)"
  by (simp_all add: halts_nonzero_def return_def error_eq throwTypeError_def console_log_def
      console_error_def fs_existsSync_def fs_statSync_isDirectory_def fs_readFileSync_def
      fs_readdirSync_def process_exit_def)

lemma halts_nonzero_getprop [simp]: "halts_nonzero (getprop v k)"
  by (cases v) simp_all

lemma halts_nonzero_iterate [simp]: "halts_nonzero (iterate v)"
  by (cases "(v)" rule: iterate.cases) simp_all

lemma halts_nonzero_authorsLoop [simp]: "halts_nonzero (authorsLoop w g xs)"
  by (induction xs) (auto split: yaml.splits)

lemma halts_nonzero_validateMetadata: "halts_nonzero (validateMetadata w d g)"
  unfolding validateMetadata_def Let_def
  by (intro halts_nonzero_andThen)
    (auto split: sum.splits option.splits yaml.splits)

lemma halts_nonzero_validateGapDirectory: "halts_nonzero (validateGapDirectory w d)"
  unfolding validateGapDirectory_def validateDirectoryNaming_def validateReadmeExists_def Let_def
  by (intro halts_nonzero_andThen)
    (auto simp: halts_nonzero_validateMetadata intro!: halts_nonzero_andThen)

lemma validateEach_stops:
  "\<forall>p \<in> set pre. snd (validateGapDirectory w p) = Inr () \<Longrightarrow>
   snd (validateGapDirectory w d) = Inl h \<Longrightarrow>
   validateEach w (pre @ d # post) =
     (concat (map (\<lambda>p. fst (validateGapDirectory w p)) pre) @ fst (validateGapDirectory w d),
      Inl h)"
proof (induction pre)
  case Nil
  then show ?case by (cases "validateGapDirectory w d") simp
next
  case (Cons p pre)
  then show ?case by (cases "validateGapDirectory w p") simp
qed

lemma discoverGapDirectories_eq:
  "discoverGapDirectories w =
     ([ReaddirSync (join w (script_dir w) ''..'')],
      Inr (map (\<lambda>e. join w (join w (script_dir w) ''..'') (name e))
             (filter (\<lambda>e. isDir e \<and> test_GAP_prefix (name e))
                (readdirSync w (join w (script_dir w) ''..'')))))"
  by (simp add: discoverGapDirectories_def Let_def fs_readdirSync_def return_def)


lemma reports_andThen:
  assumes m: "reports g m" and f: "\<And>a. reports g (f a)"
  shows "reports g (andThen m f)"
proof -
  obtain tr r where mr: "m = (tr, r)" by (cases m)
  show ?thesis
  proof (cases r)
    case (Inl h)
    with m mr show ?thesis by (cases h) simp_all
  next
    case (Inr a)
    with m mr have q: "\<forall>e \<in> set tr. \<not> is_output e" by simp
    obtain tr' r' where fr: "f a = (tr', r')" by (cases "f a")
    have res: "andThen m f = (tr @ tr', r')" using mr Inr fr by simp
    from f [of a] fr have fa: "reports g (tr', r')" by simp
    show ?thesis
    proof (cases r')
      case (Inr b)
      with fa q show ?thesis unfolding res by auto
    next
      case (Inl h)
      show ?thesis
      proof (cases h)
        case Uncaught
        with fa q Inl show ?thesis unfolding res by auto
      next
        case (Exit n)
        with fa Inl obtain pre desc where
          p: "n = 1" "tr' = pre @ [Stderr (g @ '': '' @ desc)]" "\<forall>e \<in> set pre. \<not> is_output e"
          by auto
        have "tr @ tr' = (tr @ pre) @ [Stderr (g @ '': '' @ desc)]" using p by simp
        moreover have "\<forall>e \<in> set (tr @ pre). \<not> is_output e" using q p by auto
        ultimately have "\<exists>pre' desc'. tr @ tr' = pre' @ [Stderr (g @ '': '' @ desc')]
            \<and> (\<forall>e \<in> set pre'. \<not> is_output e)" by blast
        then show ?thesis unfolding res Inl Exit using p(1) by simp
      qed
    qed
  qed
qed

lemma reports_error [simp]: "reports g (error g m)"
proof -
  have "\<exists>pre desc. [Stderr (g @ '': '' @ m)] = pre @ [Stderr (g @ '': '' @ desc)]
          \<and> (\<forall>e \<in> set pre. \<not> is_output e)"
    by (rule exI [of _ "[]"], rule exI [of _ m]) simp
  then show ?thesis by (simp add: error_eq)
qed

lemma reports_basic [simp]:
  "reports g (return a)" "reports g throwTypeError"
  "reports g (fs_existsSync w p)" "reports g (fs_statSync_isDirectory w p)"
  "reports g (fs_readFileSync w p)" "reports g (fs_readdirSync w p)"
  by (simp_all add: return_def throwTypeError_def
      fs_existsSync_def fs_statSync_isDirectory_def fs_readFileSync_def fs_readdirSync_def)

lemma reports_getprop [simp]: "reports g (getprop v k)"
  by (cases v) simp_all

lemma reports_iterate [simp]: "reports g (iterate v)"
  by (cases "(v)" rule: iterate.cases) simp_all

lemma reports_authorsLoop [simp]: "reports g (authorsLoop w g xs)"
  by (induction xs) (auto split: yaml.splits)

lemma reports_validateMetadata: "reports g (validateMetadata w d g)"
  unfolding validateMetadata_def Let_def
  by (intro reports_andThen) (auto split: sum.splits option.splits yaml.splits)

lemma reports_validateReadmeExists: "reports g (validateReadmeExists w d g)"
  unfolding validateReadmeExists_def Let_def
  by (intro reports_andThen) auto


lemma exit_prints_one_prefixed_message:
  assumes "existsSync w d" and "isDirectory w d"
    and "validateGapDirectory w d = (tr, Inl (Exit n))"
  shows "n = 1 \<and> (\<exists>pre desc. tr = pre @ [Stderr (basename w d @ '': '' @ desc)]
                      \<and> (\<forall>e \<in> set pre. \<not> is_output e))"
proof -
  let ?b = "basename w d"
  let ?X = "andThen (validateReadmeExists w d ?b) (\<lambda>_. validateMetadata w d ?b)"
  have rX: "reports ?b ?X"
    by (intro reports_andThen reports_validateReadmeExists reports_validateMetadata)
  from naming_cases [of w d] show ?thesis
  proof
    assume nm: "validateDirectoryNaming w d = return ?b"
    obtain trX rX' where X: "?X = (trX, rX')" by (cases ?X)
    let ?log = "\<lambda>_::unit. console_log (check_mark @ '' '' @ ?b @ '' validated successfully'')"
    let ?Z = "andThen (validateReadmeExists w d ?b)
                (\<lambda>_. andThen (validateMetadata w d ?b) ?log)"
    have "validateGapDirectory w d = (ExistsSync d # StatSync d # fst ?Z, snd ?Z)"
      unfolding validateGapDirectory_def nm
      by (simp add: fs_existsSync_def fs_statSync_isDirectory_def assms(1,2))
    moreover have "?Z = andThen ?X ?log"
      by (rule andThen_assoc [symmetric])
    ultimately have "validateGapDirectory w d =
        (ExistsSync d # StatSync d # fst (andThen (trX, rX') ?log), snd (andThen (trX, rX') ?log))"
      unfolding X by simp
    then have v: "validateGapDirectory w d =
        andThen ([ExistsSync d, StatSync d] @ trX, rX') ?log"
      by (cases rX') simp_all
    have "rX' = Inl (Exit n) \<and> tr = [ExistsSync d, StatSync d] @ trX"
      using assms(3) unfolding v by (cases rX') (simp_all add: console_log_def)
    moreover from this rX X have "reports ?b (trX, Inl (Exit n) :: halt + unit)" by simp
    ultimately obtain pre desc where
      "n = 1" "trX = pre @ [Stderr (?b @ '': '' @ desc)]" "\<forall>e \<in> set pre. \<not> is_output e"
      "tr = [ExistsSync d, StatSync d] @ trX"
      by auto
    then have "n = 1 \<and> tr = ([ExistsSync d, StatSync d] @ pre) @ [Stderr (?b @ '': '' @ desc)]
        \<and> (\<forall>e \<in> set ([ExistsSync d, StatSync d] @ pre). \<not> is_output e)"
      by simp
    then show ?thesis by blast
  next
    assume nm: "validateDirectoryNaming w d =
       ([Stderr (?b
          @ '': Invalid directory name format. Expected GAP-NNNN (4 digits, zero-padded)'')],
        Inl (Exit 1))"
    let ?m = "''Invalid directory name format. Expected GAP-NNNN (4 digits, zero-padded)''"
    have v: "validateGapDirectory w d =
        ([ExistsSync d, StatSync d] @ [Stderr (?b @ '': '' @ ?m)], Inl (Exit 1))"
      using assms(1,2) unfolding validateGapDirectory_def nm
      by (simp add: fs_existsSync_def fs_statSync_isDirectory_def)
    from assms(3) v have n: "n = 1"
      and t: "tr = [ExistsSync d, StatSync d] @ [Stderr (?b @ '': '' @ ?m)]"
      by simp_all
    have q: "\<forall>e \<in> set [ExistsSync d, StatSync d]. \<not> is_output e" by simp
    from t q have "\<exists>pre desc. tr = pre @ [Stderr (?b @ '': '' @ desc)]
                      \<and> (\<forall>e \<in> set pre. \<not> is_output e)"
      by (intro exI [of _ "[ExistsSync d, StatSync d]"] exI [of _ ?m] conjI)
    with n show ?thesis by (rule conjI)
  qed
qed

lemma spec_name_ok_code: "spec_name_ok nm \<longleftrightarrow> nm = ''GAP-0'' \<or> test_GAP_d4 nm"
  unfolding spec_name_ok_def test_GAP_d4_iff isDigit_def by simp

lemma validateDirectoryNaming_ok:
  "spec_name_ok (basename w d) \<Longrightarrow> validateDirectoryNaming w d = return (basename w d)"
  by (auto simp: spec_name_ok_code validateDirectoryNaming_def Let_def)

lemma validateDirectoryNaming_bad:
  "\<not> spec_name_ok (basename w d) \<Longrightarrow>
   validateDirectoryNaming w d =
     ([Stderr (basename w d
        @ '': Invalid directory name format. Expected GAP-NNNN (4 digits, zero-padded)'')],
      Inl (Exit 1))"
  by (simp add: spec_name_ok_code validateDirectoryNaming_def Let_def error_eq)

lemma validateGapDirectory_naming_fails:
  assumes "existsSync w d" and "isDirectory w d" and "\<not> spec_name_ok (basename w d)"
  shows "validateGapDirectory w d =
    failure w d [] ''Invalid directory name format. Expected GAP-NNNN (4 digits, zero-padded)''"
  unfolding validateGapDirectory_def failure_def failure_message_def
  by (simp add: assms(1,2) validateDirectoryNaming_bad [OF assms(3)]
      fs_existsSync_def fs_statSync_isDirectory_def)

lemma validateGapDirectory_readme_fails:
  assumes "existsSync w d" and "isDirectory w d" and "spec_name_ok (basename w d)"
    and "\<not> existsSync w (join w d ''README.md'')"
  shows "validateGapDirectory w d =
    failure w d [ExistsSync (join w d ''README.md'')] ''No README.md file found''"
  unfolding validateGapDirectory_def failure_def failure_message_def
  by (simp add: assms(1,2,4) validateDirectoryNaming_ok [OF assms(3)] validateReadmeExists_def
      fs_existsSync_def fs_statSync_isDirectory_def error_eq)

lemma validateGapDirectory_metadata_fails:
  assumes "existsSync w d" and "isDirectory w d" and "spec_name_ok (basename w d)"
    and "existsSync w (join w d ''README.md'')"
    and "validateMetadata w d (basename w d) =
      ([ExistsSync (join w d ''metadata.yml'')] @ calls
         @ [Stderr (basename w d @ '': '' @ desc)], Inl (Exit 1))"
  shows "validateGapDirectory w d =
    failure w d ([ExistsSync (join w d ''README.md''), ExistsSync (join w d ''metadata.yml'')]
                 @ calls) desc"
  unfolding validateGapDirectory_def failure_def failure_message_def
  by (simp add: assms(1,2,4,5) validateDirectoryNaming_ok [OF assms(3)] validateReadmeExists_def
      fs_existsSync_def fs_statSync_isDirectory_def return_def)

lemma one_line_append [simp]: "one_line (a @ b) \<longleftrightarrow> one_line a \<and> one_line b"
  by (auto simp: one_line_def)

lemma one_line_failure_message:
  "one_line (failure_message w d desc) \<longleftrightarrow> one_line (basename w d) \<and> one_line desc"
  by (simp add: failure_message_def) (simp add: one_line_def)

lemma broken_world_sel:
  "basename broken_world = sample_basename"
  "join broken_world = sample_join"
  "existsSync broken_world = (\<lambda>p. p \<in> set
         [''/repo'', ''/repo/drafts'', ''/repo/GAP-0008'',
          ''/repo/GAP-0009'', ''/repo/GAP-0009/README.md'',
          ''/repo/GAP-0010'', ''/repo/GAP-0010/README.md'', ''/repo/GAP-0010/metadata.yml'',
          ''/repo/GAP-0011'', ''/repo/GAP-0011/README.md'', ''/repo/GAP-0011/metadata.yml'',
          ''/repo/GAP-0012'', ''/repo/GAP-0012/README.md'', ''/repo/GAP-0012/metadata.yml''])"
  "isDirectory broken_world = (\<lambda>p. p \<in> set
         [''/repo'', ''/repo/drafts'', ''/repo/GAP-0008'', ''/repo/GAP-0009'', ''/repo/GAP-0010'',
          ''/repo/GAP-0010/metadata.yml'', ''/repo/GAP-0011'', ''/repo/GAP-0012''])"
  "readFileSync broken_world ''/repo/GAP-0010/metadata.yml''
     = Inl ''EISDIR: illegal operation on a directory, read''"
  "readFileSync broken_world ''/repo/GAP-0011/metadata.yml'' = Inr ''authors: [''"
  "readFileSync broken_world ''/repo/GAP-0012/metadata.yml'' = Inr ''just text''"
  "parseYaml broken_world ''authors: ['' = Inl ''Flow sequence must end with a ]''"
  "parseYaml broken_world ''just text'' = Inr (YStr ''just text'')"
  by (simp_all add: broken_world_def sample_world_sel)

lemma spec_name_ok_samples:
  "\<not> spec_name_ok ''drafts''" "spec_name_ok ''GAP-0008''" "spec_name_ok ''GAP-0009''"
  "spec_name_ok ''GAP-0010''" "spec_name_ok ''GAP-0011''" "spec_name_ok ''GAP-0012''"
  "spec_name_ok ''GAP-0007''"
  by (simp_all add: spec_name_ok_code test_GAP_d4_def isDigit_def eval_nat_numeral)

text \<open>
  C5, as amended. Validation of an existing directory, stage by stage: a name outside the
  convention, a missing \<open>README.md\<close>, a missing \<open>metadata.yml\<close>, a read error, a parse
  error, a value that is not of type object, a schema violation, an invalid author, sponsor
  or discussion. At each stage the run is the file-system calls made so far, then one
  message on the error stream, made of the base name of the directory, a colon and a space,
  and the description of that stage, then exit status 1, and nothing after. The message is
  one line at the naming, missing-file and type-check stages when the base name is, and at
  the read, parse and semantic stages when the base name and the inserted text (the
  error's message, the quoted author, sponsor or discussion) are. The message of a schema
  violation is never one line: its description is \<open>metadata.yml validation failed:\<close>, a
  blank line, and the schema errors one per line. Conversely, every run on an existing
  directory that ends in \<open>process.exit\<close> has status 1 and such a message as its only output.
\<close>

theorem failure_at_each_stage:
  fixes w :: world and d :: string
  defines "b \<equiv> basename w d"
    and "readme \<equiv> join w d ''README.md''"
    and "meta \<equiv> join w d ''metadata.yml''"
  assumes "existsSync w d" and "isDirectory w d"
  shows \<open>(\<not> spec_name_ok b \<longrightarrow>
            validateGapDirectory w d =
              failure w d []
                ''Invalid directory name format. Expected GAP-NNNN (4 digits, zero-padded)'')
       \<and> (spec_name_ok b \<and> \<not> existsSync w readme \<longrightarrow>
            validateGapDirectory w d =
              failure w d [ExistsSync readme] ''No README.md file found'')
       \<and> (spec_name_ok b \<and> existsSync w readme \<and> \<not> existsSync w meta \<longrightarrow>
            validateGapDirectory w d =
              failure w d [ExistsSync readme, ExistsSync meta] ''No metadata.yml file found'')
       \<and> (spec_name_ok b \<and> existsSync w readme \<and> existsSync w meta
            \<and> readFileSync w meta = Inl m \<longrightarrow>
            validateGapDirectory w d =
              failure w d [ExistsSync readme, ExistsSync meta, ReadFileSync meta]
                (''Failed to read metadata.yml: '' @ m))
       \<and> (spec_name_ok b \<and> existsSync w readme \<and> existsSync w meta
            \<and> readFileSync w meta = Inr c \<and> parseYaml w c = Inl m \<longrightarrow>
            validateGapDirectory w d =
              failure w d [ExistsSync readme, ExistsSync meta, ReadFileSync meta]
                (''Invalid YAML in metadata.yml: '' @ m))
       \<and> (spec_name_ok b \<and> existsSync w readme \<and> existsSync w meta
            \<and> readFileSync w meta = Inr c \<and> parseYaml w c = Inr v
            \<and> typeof v \<noteq> ''object'' \<longrightarrow>
            validateGapDirectory w d =
              failure w d [ExistsSync readme, ExistsSync meta, ReadFileSync meta]
                ''metadata.yml must contain a valid YAML object'')
       \<and> (spec_name_ok b \<and> existsSync w readme \<and> existsSync w meta
            \<and> readFileSync w meta = Inr c \<and> parseYaml w c = Inr v
            \<and> typeof v = ''object'' \<and> validateMetadataSchema w v = Some errs \<longrightarrow>
            validateGapDirectory w d =
              failure w d [ExistsSync readme, ExistsSync meta, ReadFileSync meta]
                (''metadata.yml validation failed:'' @ nl @ nl
                  @ joinWith nl (map schema_error_line errs)))
       \<and> (spec_name_ok b \<and> existsSync w readme \<and> existsSync w meta
            \<and> readFileSync w meta = Inr c \<and> parseYaml w c = Inr (YMap kvs)
            \<and> validateMetadataSchema w (YMap kvs) = None
            \<and> map_of kvs ''authors'' = Some (YSeq (map YStr (ok @ bad # rest)))
            \<and> (\<forall>a \<in> set ok. isEmail w a True) \<and> \<not> isEmail w bad True \<longrightarrow>
            validateGapDirectory w d =
              failure w d [ExistsSync readme, ExistsSync meta, ReadFileSync meta]
                (''metadata.yml invalid author "'' @ bad
                  @ ''" - must be "Name <email>" or a valid email''))
       \<and> (spec_name_ok b \<and> existsSync w readme \<and> existsSync w meta
            \<and> readFileSync w meta = Inr c \<and> parseYaml w c = Inr (YMap kvs)
            \<and> validateMetadataSchema w (YMap kvs) = None
            \<and> map_of kvs ''authors'' = Some (YSeq (map YStr as))
            \<and> (\<forall>a \<in> set as. isEmail w a True)
            \<and> map_of kvs ''sponsor'' = Some (YStr s) \<and> \<not> startsWith s ''@'' \<longrightarrow>
            validateGapDirectory w d =
              failure w d [ExistsSync readme, ExistsSync meta, ReadFileSync meta]
                (''metadata.yml sponsor must be a GitHub username starting with @ (got "''
                  @ s @ ''")''))
       \<and> (spec_name_ok b \<and> existsSync w readme \<and> existsSync w meta
            \<and> readFileSync w meta = Inr c \<and> parseYaml w c = Inr (YMap kvs)
            \<and> validateMetadataSchema w (YMap kvs) = None
            \<and> map_of kvs ''authors'' = Some (YSeq (map YStr as))
            \<and> (\<forall>a \<in> set as. isEmail w a True)
            \<and> map_of kvs ''sponsor'' = Some (YStr s) \<and> startsWith s ''@''
            \<and> map_of kvs ''discussion'' = Some (YStr u) \<and> \<not> isURL w u \<longrightarrow>
            validateGapDirectory w d =
              failure w d [ExistsSync readme, ExistsSync meta, ReadFileSync meta]
                (''metadata.yml discussion must be a valid URL (got "'' @ u @ ''")''))
       \<and> (one_line b \<longrightarrow>
            one_line (failure_message w d
              ''Invalid directory name format. Expected GAP-NNNN (4 digits, zero-padded)'')
            \<and> one_line (failure_message w d ''No README.md file found'')
            \<and> one_line (failure_message w d ''No metadata.yml file found'')
            \<and> one_line (failure_message w d ''metadata.yml must contain a valid YAML object''))
       \<and> (one_line b \<and> one_line t \<longrightarrow>
            one_line (failure_message w d (''Failed to read metadata.yml: '' @ t))
            \<and> one_line (failure_message w d (''Invalid YAML in metadata.yml: '' @ t))
            \<and> one_line (failure_message w d (''metadata.yml invalid author "'' @ t
                  @ ''" - must be "Name <email>" or a valid email''))
            \<and> one_line (failure_message w d
                 (''metadata.yml sponsor must be a GitHub username starting with @ (got "''
                  @ t @ ''")''))
            \<and> one_line (failure_message w d
                 (''metadata.yml discussion must be a valid URL (got "'' @ t @ ''")'')))
       \<and> \<not> one_line (failure_message w d
                 (''metadata.yml validation failed:'' @ nl @ nl
                  @ joinWith nl (map schema_error_line errs)))
       \<and> (validateGapDirectory w d = (tr, Inl (Exit n)) \<longrightarrow>
            n = 1 \<and> (\<exists>pre desc. tr = pre @ [Stderr (failure_message w d desc)]
                         \<and> (\<forall>e \<in> set pre. \<not> is_output e)))\<close>
    (is "?naming \<and> ?readme \<and> ?missing \<and> ?read \<and> ?parse \<and> ?type \<and> ?schema \<and> ?author
         \<and> ?sponsor \<and> ?discussion \<and> ?fixed \<and> ?inserted \<and> ?broken \<and> ?every")
proof -
  note ed = assms(4,5)
  have naming: ?naming
    unfolding b_def using validateGapDirectory_naming_fails [OF ed] by blast
  have readme: ?readme
    unfolding b_def readme_def using validateGapDirectory_readme_fails [OF ed] by blast
  have via: "validateGapDirectory w d =
      failure w d ([ExistsSync readme, ExistsSync meta] @ calls) desc"
    if "spec_name_ok b" and "existsSync w readme"
      and "validateMetadata w d b =
        ([ExistsSync meta] @ calls @ [Stderr (b @ '': '' @ desc)], Inl (Exit 1))"
    for calls desc
    using validateGapDirectory_metadata_fails [OF ed, of calls desc] that
    unfolding b_def readme_def meta_def by simp
  have missing: ?missing
  proof (intro impI, elim conjE)
    assume h: "spec_name_ok b" "existsSync w readme" "\<not> existsSync w meta"
    from via [OF h(1,2), of "[]" "''No metadata.yml file found''"]
      validateMetadata_missing [of w d b] h(3)
    show "validateGapDirectory w d =
        failure w d [ExistsSync readme, ExistsSync meta] ''No metadata.yml file found''"
      unfolding meta_def by simp
  qed
  have "read": ?read
  proof (intro impI, elim conjE)
    assume h: "spec_name_ok b" "existsSync w readme" "existsSync w meta"
      "readFileSync w meta = Inl m"
    from via [OF h(1,2), of "[ReadFileSync meta]" "''Failed to read metadata.yml: '' @ m"]
      validateMetadata_read_fails [of w d m b] h(3,4)
    show "validateGapDirectory w d =
        failure w d [ExistsSync readme, ExistsSync meta, ReadFileSync meta]
          (''Failed to read metadata.yml: '' @ m)"
      unfolding meta_def by simp
  qed
  have parse: ?parse
  proof (intro impI, elim conjE)
    assume h: "spec_name_ok b" "existsSync w readme" "existsSync w meta"
      "readFileSync w meta = Inr c" "parseYaml w c = Inl m"
    from via [OF h(1,2), of "[ReadFileSync meta]" "''Invalid YAML in metadata.yml: '' @ m"]
      validateMetadata_parse_fails [of w d c m b] h(3,4,5)
    show "validateGapDirectory w d =
        failure w d [ExistsSync readme, ExistsSync meta, ReadFileSync meta]
          (''Invalid YAML in metadata.yml: '' @ m)"
      unfolding meta_def by simp
  qed
  have type: ?type
  proof (intro impI, elim conjE)
    assume h: "spec_name_ok b" "existsSync w readme" "existsSync w meta"
      "readFileSync w meta = Inr c" "parseYaml w c = Inr v" "typeof v \<noteq> ''object''"
    from via [OF h(1,2), of "[ReadFileSync meta]"
        "''metadata.yml must contain a valid YAML object''"]
      type_check_rejects_scalars [of w d c v b] h(3,4,5,6)
    show "validateGapDirectory w d =
        failure w d [ExistsSync readme, ExistsSync meta, ReadFileSync meta]
          ''metadata.yml must contain a valid YAML object''"
      unfolding meta_def by simp
  qed
  have schema: ?schema
  proof (intro impI, elim conjE)
    assume h: "spec_name_ok b" "existsSync w readme" "existsSync w meta"
      "readFileSync w meta = Inr c" "parseYaml w c = Inr v" "typeof v = ''object''"
      "validateMetadataSchema w v = Some errs"
    from via [OF h(1,2), of "[ReadFileSync meta]"
        "''metadata.yml validation failed:'' @ nl @ nl
          @ joinWith nl (map schema_error_line errs)"]
      validateMetadata_schema_fails [of w d c v errs b] h(3-7)
    show "validateGapDirectory w d =
        failure w d [ExistsSync readme, ExistsSync meta, ReadFileSync meta]
          (''metadata.yml validation failed:'' @ nl @ nl
            @ joinWith nl (map schema_error_line errs))"
      unfolding meta_def by simp
  qed
  have author: ?author
  proof (intro impI, elim conjE)
    assume h: "spec_name_ok b" "existsSync w readme" "existsSync w meta"
      "readFileSync w meta = Inr c" "parseYaml w c = Inr (YMap kvs)"
      "validateMetadataSchema w (YMap kvs) = None"
      "map_of kvs ''authors'' = Some (YSeq (map YStr (ok @ bad # rest)))"
      "\<forall>a \<in> set ok. isEmail w a True" "\<not> isEmail w bad True"
    from via [OF h(1,2), of "[ReadFileSync meta]"
        \<open>''metadata.yml invalid author "'' @ bad
          @ ''" - must be "Name <email>" or a valid email''\<close>]
      validateMetadata_author_fails [of w d c kvs ok bad rest b] h(3-9)
    show \<open>validateGapDirectory w d =
        failure w d [ExistsSync readme, ExistsSync meta, ReadFileSync meta]
          (''metadata.yml invalid author "'' @ bad
            @ ''" - must be "Name <email>" or a valid email'')\<close>
      unfolding meta_def by simp
  qed
  have sponsor: ?sponsor
  proof (intro impI, elim conjE)
    assume h: "spec_name_ok b" "existsSync w readme" "existsSync w meta"
      "readFileSync w meta = Inr c" "parseYaml w c = Inr (YMap kvs)"
      "validateMetadataSchema w (YMap kvs) = None"
      "map_of kvs ''authors'' = Some (YSeq (map YStr as))"
      "\<forall>a \<in> set as. isEmail w a True"
      "map_of kvs ''sponsor'' = Some (YStr s)" "\<not> startsWith s ''@''"
    from via [OF h(1,2), of "[ReadFileSync meta]"
        \<open>''metadata.yml sponsor must be a GitHub username starting with @ (got "''
          @ s @ ''")''\<close>]
      validateMetadata_sponsor_fails [of w d c kvs as s b] h(3-10)
    show \<open>validateGapDirectory w d =
        failure w d [ExistsSync readme, ExistsSync meta, ReadFileSync meta]
          (''metadata.yml sponsor must be a GitHub username starting with @ (got "''
            @ s @ ''")'')\<close>
      unfolding meta_def by simp
  qed
  have discussion: ?discussion
  proof (intro impI, elim conjE)
    assume h: "spec_name_ok b" "existsSync w readme" "existsSync w meta"
      "readFileSync w meta = Inr c" "parseYaml w c = Inr (YMap kvs)"
      "validateMetadataSchema w (YMap kvs) = None"
      "map_of kvs ''authors'' = Some (YSeq (map YStr as))"
      "\<forall>a \<in> set as. isEmail w a True"
      "map_of kvs ''sponsor'' = Some (YStr s)" "startsWith s ''@''"
      "map_of kvs ''discussion'' = Some (YStr u)" "\<not> isURL w u"
    have all: "find (\<lambda>a. \<not> isEmail w a True) as = None"
      using find_None_all [of "\<lambda>a. \<not> isEmail w a True" as] h(8) by simp
    have vm: \<open>validateMetadata w d b =
        ([ExistsSync meta] @ [ReadFileSync meta]
           @ [Stderr (b @ '': '' @ ''metadata.yml discussion must be a valid URL (got "''
                        @ u @ ''")'')], Inl (Exit 1))\<close>
      using validateMetadata_shaped [of w d c kvs as s u b] h(3-7,9-12) all
      unfolding meta_def by simp
    from via [OF h(1,2) vm]
    show \<open>validateGapDirectory w d =
        failure w d [ExistsSync readme, ExistsSync meta, ReadFileSync meta]
          (''metadata.yml discussion must be a valid URL (got "'' @ u @ ''")'')\<close>
      by simp
  qed
  have fixed: ?fixed
    unfolding b_def one_line_failure_message by (simp add: one_line_def)
  have inserted: ?inserted
    unfolding b_def one_line_failure_message by (simp add: one_line_def)
  have broken: ?broken
    unfolding one_line_failure_message by (simp add: one_line_def nl_def)
  have every: ?every
    using exit_prints_one_prefixed_message [OF ed, of tr n]
    unfolding failure_message_def by blast
  from naming readme missing "read" parse type schema author sponsor discussion fixed
    inserted broken every
  show ?thesis by (intro conjI)
qed

theorem failure_at_each_stage_witness:
  \<open>validateGapDirectory broken_world ''/repo/drafts'' =
     ([ExistsSync ''/repo/drafts'', StatSync ''/repo/drafts'',
       Stderr ''drafts: Invalid directory name format. Expected GAP-NNNN (4 digits, zero-padded)''],
      Inl (Exit 1))
   \<and> validateGapDirectory broken_world ''/repo/GAP-0008'' =
     ([ExistsSync ''/repo/GAP-0008'', StatSync ''/repo/GAP-0008'',
       ExistsSync ''/repo/GAP-0008/README.md'',
       Stderr ''GAP-0008: No README.md file found''],
      Inl (Exit 1))
   \<and> validateGapDirectory broken_world ''/repo/GAP-0009'' =
     ([ExistsSync ''/repo/GAP-0009'', StatSync ''/repo/GAP-0009'',
       ExistsSync ''/repo/GAP-0009/README.md'', ExistsSync ''/repo/GAP-0009/metadata.yml'',
       Stderr ''GAP-0009: No metadata.yml file found''],
      Inl (Exit 1))
   \<and> validateGapDirectory broken_world ''/repo/GAP-0010'' =
     ([ExistsSync ''/repo/GAP-0010'', StatSync ''/repo/GAP-0010'',
       ExistsSync ''/repo/GAP-0010/README.md'', ExistsSync ''/repo/GAP-0010/metadata.yml'',
       ReadFileSync ''/repo/GAP-0010/metadata.yml'',
       Stderr ''GAP-0010: Failed to read metadata.yml: EISDIR: illegal operation on a directory, read''],
      Inl (Exit 1))
   \<and> validateGapDirectory broken_world ''/repo/GAP-0011'' =
     ([ExistsSync ''/repo/GAP-0011'', StatSync ''/repo/GAP-0011'',
       ExistsSync ''/repo/GAP-0011/README.md'', ExistsSync ''/repo/GAP-0011/metadata.yml'',
       ReadFileSync ''/repo/GAP-0011/metadata.yml'',
       Stderr ''GAP-0011: Invalid YAML in metadata.yml: Flow sequence must end with a ]''],
      Inl (Exit 1))
   \<and> validateGapDirectory broken_world ''/repo/GAP-0012'' =
     ([ExistsSync ''/repo/GAP-0012'', StatSync ''/repo/GAP-0012'',
       ExistsSync ''/repo/GAP-0012/README.md'', ExistsSync ''/repo/GAP-0012/metadata.yml'',
       ReadFileSync ''/repo/GAP-0012/metadata.yml'',
       Stderr ''GAP-0012: metadata.yml must contain a valid YAML object''],
      Inl (Exit 1))
   \<and> one_line ''GAP-0012: metadata.yml must contain a valid YAML object''
   \<and> validateGapDirectory sample_world ''/repo/GAP-0007'' =
     ([ExistsSync ''/repo/GAP-0007'', StatSync ''/repo/GAP-0007'',
       ExistsSync ''/repo/GAP-0007/README.md'', ExistsSync ''/repo/GAP-0007/metadata.yml'',
       ReadFileSync ''/repo/GAP-0007/metadata.yml'',
       Stderr (''GAP-0007: metadata.yml validation failed:'' @ [CHR 0x0A, CHR 0x0A]
                @ ''must have required property '' @ [CHR 0x27] @ ''discussion'' @ [CHR 0x27])],
      Inl (Exit 1))\<close>
proof -
  note bs = broken_world_sel sample_basename_def sample_join_def
  note unf = failure_def failure_message_def
  have e: "existsSync broken_world ''/repo/drafts''" "existsSync broken_world ''/repo/GAP-0008''"
      "existsSync broken_world ''/repo/GAP-0009''" "existsSync broken_world ''/repo/GAP-0010''"
      "existsSync broken_world ''/repo/GAP-0011''" "existsSync broken_world ''/repo/GAP-0012''"
    and d: "isDirectory broken_world ''/repo/drafts''" "isDirectory broken_world ''/repo/GAP-0008''"
      "isDirectory broken_world ''/repo/GAP-0009''" "isDirectory broken_world ''/repo/GAP-0010''"
      "isDirectory broken_world ''/repo/GAP-0011''" "isDirectory broken_world ''/repo/GAP-0012''"
    by (simp_all add: broken_world_sel)
  have h1: "\<not> spec_name_ok (basename broken_world ''/repo/drafts'')"
    by (simp add: bs spec_name_ok_samples)
  have h2: "spec_name_ok (basename broken_world ''/repo/GAP-0008'')
      \<and> \<not> existsSync broken_world (join broken_world ''/repo/GAP-0008'' ''README.md'')"
    by (simp add: bs spec_name_ok_samples)
  have h3: "spec_name_ok (basename broken_world ''/repo/GAP-0009'')
      \<and> existsSync broken_world (join broken_world ''/repo/GAP-0009'' ''README.md'')
      \<and> \<not> existsSync broken_world (join broken_world ''/repo/GAP-0009'' ''metadata.yml'')"
    by (simp add: bs spec_name_ok_samples)
  have h4: "spec_name_ok (basename broken_world ''/repo/GAP-0010'')
      \<and> existsSync broken_world (join broken_world ''/repo/GAP-0010'' ''README.md'')
      \<and> existsSync broken_world (join broken_world ''/repo/GAP-0010'' ''metadata.yml'')
      \<and> readFileSync broken_world (join broken_world ''/repo/GAP-0010'' ''metadata.yml'')
          = Inl ''EISDIR: illegal operation on a directory, read''"
    by (simp add: bs spec_name_ok_samples)
  have h5: "spec_name_ok (basename broken_world ''/repo/GAP-0011'')
      \<and> existsSync broken_world (join broken_world ''/repo/GAP-0011'' ''README.md'')
      \<and> existsSync broken_world (join broken_world ''/repo/GAP-0011'' ''metadata.yml'')
      \<and> readFileSync broken_world (join broken_world ''/repo/GAP-0011'' ''metadata.yml'')
          = Inr ''authors: [''
      \<and> parseYaml broken_world ''authors: ['' = Inl ''Flow sequence must end with a ]''"
    by (simp add: bs spec_name_ok_samples)
  have h6: "spec_name_ok (basename broken_world ''/repo/GAP-0012'')
      \<and> existsSync broken_world (join broken_world ''/repo/GAP-0012'' ''README.md'')
      \<and> existsSync broken_world (join broken_world ''/repo/GAP-0012'' ''metadata.yml'')
      \<and> readFileSync broken_world (join broken_world ''/repo/GAP-0012'' ''metadata.yml'')
          = Inr ''just text''
      \<and> parseYaml broken_world ''just text'' = Inr (YStr ''just text'')
      \<and> typeof (YStr ''just text'') \<noteq> ''object''"
    by (simp add: bs spec_name_ok_samples)
  have e7: "existsSync sample_world ''/repo/GAP-0007''"
    and d7: "isDirectory sample_world ''/repo/GAP-0007''"
    by (simp_all add: sample_world_sel sample_dirs_def)
  have h7: "spec_name_ok (basename sample_world ''/repo/GAP-0007'')
      \<and> existsSync sample_world (join sample_world ''/repo/GAP-0007'' ''README.md'')
      \<and> existsSync sample_world (join sample_world ''/repo/GAP-0007'' ''metadata.yml'')
      \<and> readFileSync sample_world (join sample_world ''/repo/GAP-0007'' ''metadata.yml'')
          = Inr no_discussion_yml
      \<and> parseYaml sample_world no_discussion_yml = Inr no_discussion_metadata
      \<and> typeof no_discussion_metadata = ''object''
      \<and> validateMetadataSchema sample_world no_discussion_metadata =
          Some [\<lparr>instancePath = [], message = ''must have required property ''
                                   @ [CHR 0x27] @ ''discussion'' @ [CHR 0x27]\<rparr>]"
    by (simp add: sample_defs spec_name_ok_samples)
  note s1 = failure_at_each_stage [OF e(1) d(1), THEN conjunct1, THEN mp, OF h1]
  note s2 = failure_at_each_stage [OF e(2) d(2), THEN conjunct2, THEN conjunct1, THEN mp, OF h2]
  note s3 = failure_at_each_stage [OF e(3) d(3), THEN conjunct2, THEN conjunct2, THEN conjunct1,
      THEN mp, OF h3]
  note s4 = failure_at_each_stage [OF e(4) d(4), THEN conjunct2, THEN conjunct2, THEN conjunct2,
      THEN conjunct1, THEN mp, OF h4]
  note s5 = failure_at_each_stage [OF e(5) d(5), THEN conjunct2, THEN conjunct2, THEN conjunct2,
      THEN conjunct2, THEN conjunct1, THEN mp, OF h5]
  note s6 = failure_at_each_stage [OF e(6) d(6), THEN conjunct2, THEN conjunct2, THEN conjunct2,
      THEN conjunct2, THEN conjunct2, THEN conjunct1, THEN mp, OF h6]
  note s7 = failure_at_each_stage [OF e7 d7, THEN conjunct2, THEN conjunct2, THEN conjunct2,
      THEN conjunct2, THEN conjunct2, THEN conjunct2, THEN conjunct1, THEN mp, OF h7]
  have b6: "one_line (basename broken_world ''/repo/GAP-0012'')"
    by (simp add: bs one_line_def)
  note l6 = failure_at_each_stage [OF e(6) d(6), THEN conjunct2, THEN conjunct2, THEN conjunct2,
      THEN conjunct2, THEN conjunct2, THEN conjunct2, THEN conjunct2, THEN conjunct2,
      THEN conjunct2, THEN conjunct2, THEN conjunct1, THEN mp, OF b6, THEN conjunct2,
      THEN conjunct2, THEN conjunct2]
  have r1: \<open>validateGapDirectory broken_world ''/repo/drafts'' =
     ([ExistsSync ''/repo/drafts'', StatSync ''/repo/drafts'',
       Stderr ''drafts: Invalid directory name format. Expected GAP-NNNN (4 digits, zero-padded)''],
      Inl (Exit 1))\<close>
    using s1 by (simp add: unf bs)
  have r2: \<open>validateGapDirectory broken_world ''/repo/GAP-0008'' =
     ([ExistsSync ''/repo/GAP-0008'', StatSync ''/repo/GAP-0008'',
       ExistsSync ''/repo/GAP-0008/README.md'',
       Stderr ''GAP-0008: No README.md file found''],
      Inl (Exit 1))\<close>
    using s2 by (simp add: unf bs)
  have r3: \<open>validateGapDirectory broken_world ''/repo/GAP-0009'' =
     ([ExistsSync ''/repo/GAP-0009'', StatSync ''/repo/GAP-0009'',
       ExistsSync ''/repo/GAP-0009/README.md'', ExistsSync ''/repo/GAP-0009/metadata.yml'',
       Stderr ''GAP-0009: No metadata.yml file found''],
      Inl (Exit 1))\<close>
    using s3 by (simp add: unf bs)
  have r4: \<open>validateGapDirectory broken_world ''/repo/GAP-0010'' =
     ([ExistsSync ''/repo/GAP-0010'', StatSync ''/repo/GAP-0010'',
       ExistsSync ''/repo/GAP-0010/README.md'', ExistsSync ''/repo/GAP-0010/metadata.yml'',
       ReadFileSync ''/repo/GAP-0010/metadata.yml'',
       Stderr ''GAP-0010: Failed to read metadata.yml: EISDIR: illegal operation on a directory, read''],
      Inl (Exit 1))\<close>
    using s4 by (simp add: unf bs)
  have r5: \<open>validateGapDirectory broken_world ''/repo/GAP-0011'' =
     ([ExistsSync ''/repo/GAP-0011'', StatSync ''/repo/GAP-0011'',
       ExistsSync ''/repo/GAP-0011/README.md'', ExistsSync ''/repo/GAP-0011/metadata.yml'',
       ReadFileSync ''/repo/GAP-0011/metadata.yml'',
       Stderr ''GAP-0011: Invalid YAML in metadata.yml: Flow sequence must end with a ]''],
      Inl (Exit 1))\<close>
    using s5 by (simp add: unf bs)
  have r6: \<open>validateGapDirectory broken_world ''/repo/GAP-0012'' =
     ([ExistsSync ''/repo/GAP-0012'', StatSync ''/repo/GAP-0012'',
       ExistsSync ''/repo/GAP-0012/README.md'', ExistsSync ''/repo/GAP-0012/metadata.yml'',
       ReadFileSync ''/repo/GAP-0012/metadata.yml'',
       Stderr ''GAP-0012: metadata.yml must contain a valid YAML object''],
      Inl (Exit 1))\<close>
    using s6 by (simp add: unf bs)
  have o6: "one_line ''GAP-0012: metadata.yml must contain a valid YAML object''"
    using l6 by (simp add: unf bs)
  have r7: \<open>validateGapDirectory sample_world ''/repo/GAP-0007'' =
     ([ExistsSync ''/repo/GAP-0007'', StatSync ''/repo/GAP-0007'',
       ExistsSync ''/repo/GAP-0007/README.md'', ExistsSync ''/repo/GAP-0007/metadata.yml'',
       ReadFileSync ''/repo/GAP-0007/metadata.yml'',
       Stderr (''GAP-0007: metadata.yml validation failed:'' @ [CHR 0x0A, CHR 0x0A]
                @ ''must have required property '' @ [CHR 0x27] @ ''discussion'' @ [CHR 0x27])],
      Inl (Exit 1))\<close>
    using s7 by (simp add: unf sample_world_sel sample_basename_def sample_join_def nl_def
        schema_error_line_def)
  from r1 r2 r3 r4 r5 r6 o6 r7 show ?thesis by (intro conjI)
qed

text \<open>
  The message of a schema failure is not one line: in the sample repository the metadata
  of \<open>GAP-0007\<close> lacks the \<open>discussion\<close>, and validating it prints a message with two line
  breaks in it.
\<close>

theorem schema_failure_message_has_line_breaks:
  \<open>validateGapDirectory sample_world ''/repo/GAP-0007'' =
     ([ExistsSync ''/repo/GAP-0007'', StatSync ''/repo/GAP-0007'',
       ExistsSync ''/repo/GAP-0007/README.md'', ExistsSync ''/repo/GAP-0007/metadata.yml'',
       ReadFileSync ''/repo/GAP-0007/metadata.yml'',
       Stderr (''GAP-0007: metadata.yml validation failed:'' @ [CHR 0x0A, CHR 0x0A]
                @ ''must have required property '' @ [CHR 0x27] @ ''discussion'' @ [CHR 0x27])],
      Inl (Exit 1))
   \<and> CHR 0x0A \<in> set (''GAP-0007: metadata.yml validation failed:'' @ [CHR 0x0A, CHR 0x0A]
                @ ''must have required property '' @ [CHR 0x27] @ ''discussion'' @ [CHR 0x27])\<close>
  by (simp add: run_defs sample_defs)

section \<open>The entry points\<close>

text \<open>
  C1. In discovery mode, when the directories before \<open>d\<close> in the discovered sequence
  validate and \<open>d\<close> does not, the process stops with what \<open>d\<close> stopped with, a status
  other than 0, and its whole trace is the listing, the count line, the traces of the
  directories before \<open>d\<close> and the trace of \<open>d\<close>: nothing of a later directory.
\<close>

theorem discovery_stops_at_first_failure:
  assumes "snd (discoverGapDirectories w) = Inr (pre @ d # post)"
    and "\<forall>p \<in> set pre. snd (validateGapDirectory w p) = Inr ()"
    and "snd (validateGapDirectory w d) = Inl h"
  shows "main w [] =
           ([ReaddirSync (join w (script_dir w) ''..''),
             Stdout (''Found '' @ toString_nat (length (pre @ d # post)) @ '' GAP director''
                      @ (if length (pre @ d # post) = 1 then ''y'' else ''ies''))]
            @ concat (map (\<lambda>p. fst (validateGapDirectory w p)) pre)
            @ fst (validateGapDirectory w d),
            Inl h)
         \<and> exit_status (main w []) \<noteq> 0"
proof -
  have d: "discoverGapDirectories w =
      ([ReaddirSync (join w (script_dir w) ''..'')], Inr (pre @ d # post))"
    using assms(1) discoverGapDirectories_eq [of w] by simp
  have m: "main w [] =
           ([ReaddirSync (join w (script_dir w) ''..''),
             Stdout (''Found '' @ toString_nat (length (pre @ d # post)) @ '' GAP director''
                      @ (if length (pre @ d # post) = 1 then ''y'' else ''ies''))]
            @ concat (map (\<lambda>p. fst (validateGapDirectory w p)) pre)
            @ fst (validateGapDirectory w d),
            Inl h)"
    unfolding main_def d
    by (simp add: console_log_def validateEach_stops [OF assms(2) assms(3)]
        del: toString_nat.simps)
  have "h \<noteq> Exit 0"
    using halts_nonzero_validateGapDirectory [of w d] assms(3)
    by (auto simp: halts_nonzero_def)
  then have "exit_status (main w []) \<noteq> 0"
    unfolding m by (cases h) (simp_all add: exit_status_def)
  with m show ?thesis by simp
qed

theorem discovery_stops_at_first_failure_witness:
  \<open>main sample_world [] =
     ([ReaddirSync ''/repo'', Stdout ''Found 7 GAP directories'',
       ExistsSync ''/repo/GAP-0001'', StatSync ''/repo/GAP-0001'',
       ExistsSync ''/repo/GAP-0001/README.md'', ExistsSync ''/repo/GAP-0001/metadata.yml'',
       ReadFileSync ''/repo/GAP-0001/metadata.yml'',
       Stdout (check_mark @ '' GAP-0001 validated successfully''),
       ExistsSync ''/repo/GAP-0002'', StatSync ''/repo/GAP-0002'',
       ExistsSync ''/repo/GAP-0002/README.md'', ExistsSync ''/repo/GAP-0002/metadata.yml'',
       ReadFileSync ''/repo/GAP-0002/metadata.yml'',
       Stderr ''GAP-0002: metadata.yml sponsor must be a GitHub username starting with @ (got "alice")''],
      Inl (Exit 1))
   \<and> exit_status (main sample_world []) \<noteq> 0\<close>
proof -
  have d: "snd (discoverGapDirectories sample_world) =
      Inr ([''/repo/GAP-0001''] @ ''/repo/GAP-0002''
            # [''/repo/GAP-0003'', ''/repo/GAP-0004'', ''/repo/GAP-0005'', ''/repo/GAP-0006'',
               ''/repo/GAP-0007''])"
    by (simp add: sample_discovery)
  have p: "\<forall>p \<in> set [''/repo/GAP-0001'']. snd (validateGapDirectory sample_world p) = Inr ()"
    by (simp add: sample_GAP_0001)
  have f: "snd (validateGapDirectory sample_world ''/repo/GAP-0002'') = Inl (Exit 1)"
    by (simp add: sample_GAP_0002)
  have r: "join sample_world (script_dir sample_world) ''..'' = ''/repo''"
    by (simp add: sample_world_sel sample_join_def)
  note stops = discovery_stops_at_first_failure [OF d p f]
  from stops have a: \<open>main sample_world [] =
     ([ReaddirSync ''/repo'', Stdout ''Found 7 GAP directories'',
       ExistsSync ''/repo/GAP-0001'', StatSync ''/repo/GAP-0001'',
       ExistsSync ''/repo/GAP-0001/README.md'', ExistsSync ''/repo/GAP-0001/metadata.yml'',
       ReadFileSync ''/repo/GAP-0001/metadata.yml'',
       Stdout (check_mark @ '' GAP-0001 validated successfully''),
       ExistsSync ''/repo/GAP-0002'', StatSync ''/repo/GAP-0002'',
       ExistsSync ''/repo/GAP-0002/README.md'', ExistsSync ''/repo/GAP-0002/metadata.yml'',
       ReadFileSync ''/repo/GAP-0002/metadata.yml'',
       Stderr ''GAP-0002: metadata.yml sponsor must be a GitHub username starting with @ (got "alice")''],
      Inl (Exit 1))\<close>
    by (simp add: r sample_GAP_0001 sample_GAP_0002 digit_char_def)
  from stops have b: "exit_status (main sample_world []) \<noteq> 0"
    by (rule conjunct2)
  from a b show ?thesis by (rule conjI)
qed

text \<open>
  C8. With one positional argument that does not exist, or exists and is not a directory,
  the process prints the error and exits with status 1, having done nothing but look at
  the path; with two or more arguments it prints the usage line and exits with status 1,
  having done nothing else.
\<close>

theorem single_argument_and_usage_errors:
  "(\<not> existsSync w p \<longrightarrow>
      main w [p] = ([ExistsSync p, Stderr (''Directory does not exist: '' @ p)], Inl (Exit 1)))
   \<and> (existsSync w p \<and> \<not> isDirectory w p \<longrightarrow>
      main w [p] = ([ExistsSync p, StatSync p, Stderr (''Not a directory: '' @ p)], Inl (Exit 1)))
   \<and> (2 \<le> length ps \<longrightarrow>
      main w ps = ([Stderr ''Usage: ./scripts/validate-structure.js [gap-directory]''], Inl (Exit 1)))"
  by (auto simp: main_def validateGapDirectory_def fs_existsSync_def fs_statSync_isDirectory_def
      console_error_def process_exit_def)


theorem single_argument_and_usage_errors_witness:
  "main sample_world [''/repo/GAP-9999''] =
     ([ExistsSync ''/repo/GAP-9999'', Stderr ''Directory does not exist: /repo/GAP-9999''],
      Inl (Exit 1))
   \<and> main sample_world [''/repo/GAP-notes.txt''] =
     ([ExistsSync ''/repo/GAP-notes.txt'', StatSync ''/repo/GAP-notes.txt'',
       Stderr ''Not a directory: /repo/GAP-notes.txt''],
      Inl (Exit 1))
   \<and> main sample_world [''/repo/GAP-0001'', ''/repo/GAP-0003''] =
     ([Stderr ''Usage: ./scripts/validate-structure.js [gap-directory]''], Inl (Exit 1))"
proof -
  have a: "\<not> existsSync sample_world ''/repo/GAP-9999''"
    by (simp add: sample_world_sel sample_dirs_def sample_files_def)
  have b: "existsSync sample_world ''/repo/GAP-notes.txt''
      \<and> \<not> isDirectory sample_world ''/repo/GAP-notes.txt''"
    by (simp add: sample_world_sel sample_dirs_def sample_files_def)
  have c: "2 \<le> length [''/repo/GAP-0001'', ''/repo/GAP-0003'']" by simp
  note t1 = single_argument_and_usage_errors [of sample_world "''/repo/GAP-9999''" "[]",
      THEN conjunct1, THEN mp, OF a]
  note t2 = single_argument_and_usage_errors [of sample_world "''/repo/GAP-notes.txt''" "[]",
      THEN conjunct2, THEN conjunct1, THEN mp, OF b]
  note t3 = single_argument_and_usage_errors [of sample_world "[]"
      "[''/repo/GAP-0001'', ''/repo/GAP-0003'']", THEN conjunct2, THEN conjunct2, THEN mp, OF c]
  from t1 t2 t3 show ?thesis by simp
qed

text \<open>
  C9. Discovery lists the root and keeps, in the order of the listing, exactly the entries
  that are directories and whose name is \<open>GAP-\<close> followed by anything; when none is
  kept, the process prints \<open>No GAP directories found\<close> and exits with status 1, having
  done nothing else.
\<close>

theorem discovery_selects_GAP_directories:
  "discoverGapDirectories w =
     ([ReaddirSync (join w (script_dir w) ''..'')],
      Inr (map (\<lambda>e. join w (join w (script_dir w) ''..'') (name e))
             (filter (\<lambda>e. isDir e \<and> (\<exists>rest. name e = ''GAP-'' @ rest))
                (readdirSync w (join w (script_dir w) ''..'')))))
   \<and> (snd (discoverGapDirectories w) = Inr [] \<longrightarrow>
        main w [] =
          ([ReaddirSync (join w (script_dir w) ''..''), Stderr ''No GAP directories found''],
           Inl (Exit 1)))"
  by (auto simp: discoverGapDirectories_def Let_def fs_readdirSync_def return_def main_def
      test_GAP_prefix_iff console_error_def process_exit_def)

theorem discovery_selects_GAP_directories_witness:
  "discoverGapDirectories sample_world =
     ([ReaddirSync ''/repo''],
      Inr [''/repo/GAP-0001'', ''/repo/GAP-0002'', ''/repo/GAP-0003'', ''/repo/GAP-0004'',
           ''/repo/GAP-0005'', ''/repo/GAP-0006'', ''/repo/GAP-0007''])
   \<and> snd (discoverGapDirectories bare_world) = Inr []
   \<and> main bare_world [] =
       ([ReaddirSync ''/repo'', Stderr ''No GAP directories found''], Inl (Exit 1))"
proof -
  have r: "join sample_world (script_dir sample_world) ''..'' = ''/repo''"
    by (simp add: sample_world_sel sample_join_def)
  have rb: "join bare_world (script_dir bare_world) ''..'' = ''/repo''"
    by (simp add: bare_world_def sample_world_sel sample_join_def)
  have s: "discoverGapDirectories sample_world =
     ([ReaddirSync ''/repo''],
      Inr [''/repo/GAP-0001'', ''/repo/GAP-0002'', ''/repo/GAP-0003'', ''/repo/GAP-0004'',
           ''/repo/GAP-0005'', ''/repo/GAP-0006'', ''/repo/GAP-0007''])"
    using discovery_selects_GAP_directories [of sample_world, THEN conjunct1]
    unfolding r by (simp add: sample_world_sel sample_join_def)
  have e: "snd (discoverGapDirectories bare_world) = Inr []"
    by (simp add: discoverGapDirectories_def run_defs bare_world_def sample_world_sel
        sample_join_def)
  from discovery_selects_GAP_directories [of bare_world, THEN conjunct2, THEN mp, OF e]
  have m: "main bare_world [] =
       ([ReaddirSync ''/repo'', Stderr ''No GAP directories found''], Inl (Exit 1))"
    unfolding rb .
  from s e m show ?thesis by (intro conjI)
qed

section \<open>The two files\<close>

lemma error_part0_eq: "error_part0 g m = error g m"
  by (simp add: error_part0_def error_def)

lemma authorsLoop_part0_eq: "authorsLoop_part0 w g xs = authorsLoop w g xs"
  by (induction xs) (auto simp: error_part0_eq split: yaml.splits)


text \<open>
  C10. The naming check, the README check and the metadata validation of the two files are
  equal as functions, and on one argument the newer entry point does what the older one
  does and then, when that returns, prints the success line.
\<close>

theorem part0_same_directory_checks:
  "validateDirectoryNaming_part0 = validateDirectoryNaming
   \<and> validateReadmeExists_part0 = validateReadmeExists
   \<and> validateMetadata_part0 = validateMetadata
   \<and> main w [dirPath] =
       andThen (main_part0 w [dirPath])
         (\<lambda>_. console_log (check_mark @ '' '' @ basename w dirPath @ '' validated successfully''))"
proof -
  have n: "validateDirectoryNaming_part0 = validateDirectoryNaming"
    unfolding validateDirectoryNaming_part0_def validateDirectoryNaming_def error_part0_eq
    by (intro ext refl)
  have r: "validateReadmeExists_part0 = validateReadmeExists"
    unfolding validateReadmeExists_part0_def validateReadmeExists_def error_part0_eq
    by (intro ext refl)
  have m: "validateMetadata_part0 = validateMetadata"
    unfolding validateMetadata_part0_def validateMetadata_def error_part0_eq authorsLoop_part0_eq
    by (intro ext refl)
  have e: "main w [dirPath] =
       andThen (main_part0 w [dirPath])
         (\<lambda>_. console_log (check_mark @ '' '' @ basename w dirPath @ '' validated successfully''))"
  proof -
    let ?b = "basename w dirPath"
    let ?log = "\<lambda>_::unit. console_log (check_mark @ '' '' @ ?b @ '' validated successfully'')"
    let ?X = "andThen (validateReadmeExists w dirPath ?b) (\<lambda>_. validateMetadata w dirPath ?b)"
    let ?Z = "andThen (validateReadmeExists w dirPath ?b)
                (\<lambda>_. andThen (validateMetadata w dirPath ?b) ?log)"
    have z: "?Z = andThen ?X ?log" by (rule andThen_assoc [symmetric])
    obtain trX rX where X: "?X = (trX, rX)" by (cases ?X)
    from naming_cases [of w dirPath] show ?thesis
    proof
      assume nm: "validateDirectoryNaming w dirPath = return ?b"
      have new: "main w [dirPath] =
          (if \<not> existsSync w dirPath
           then ([ExistsSync dirPath, Stderr (''Directory does not exist: '' @ dirPath)],
                 Inl (Exit 1))
           else if \<not> isDirectory w dirPath
           then ([ExistsSync dirPath, StatSync dirPath, Stderr (''Not a directory: '' @ dirPath)],
                 Inl (Exit 1))
           else (ExistsSync dirPath # StatSync dirPath # fst ?Z, snd ?Z))"
        unfolding main_def validateGapDirectory_def
        by (simp add: nm console_error_exit fs_existsSync_def fs_statSync_isDirectory_def)
      have old: "main_part0 w [dirPath] =
          (if \<not> existsSync w dirPath
           then ([ExistsSync dirPath, Stderr (''Directory does not exist: '' @ dirPath)],
                 Inl (Exit 1))
           else if \<not> isDirectory w dirPath
           then ([ExistsSync dirPath, StatSync dirPath, Stderr (''Not a directory: '' @ dirPath)],
                 Inl (Exit 1))
           else (ExistsSync dirPath # StatSync dirPath # fst ?X, snd ?X))"
        unfolding main_part0_def n r m
        by (simp add: nm console_error_exit fs_existsSync_def fs_statSync_isDirectory_def)
      show ?thesis unfolding new old z X by (cases rX) simp_all
    next
      assume nm: "validateDirectoryNaming w dirPath =
         ([Stderr (?b
            @ '': Invalid directory name format. Expected GAP-NNNN (4 digits, zero-padded)'')],
          Inl (Exit 1))"
      show ?thesis
        unfolding main_def main_part0_def validateGapDirectory_def n r m
        by (simp add: nm console_error_exit fs_existsSync_def fs_statSync_isDirectory_def)
    qed
  qed
  from n r m e show ?thesis by simp
qed


theorem part0_same_directory_checks_witness:
  "main_part0 sample_world [''/repo/GAP-0001''] =
     ([ExistsSync ''/repo/GAP-0001'', StatSync ''/repo/GAP-0001'',
       ExistsSync ''/repo/GAP-0001/README.md'', ExistsSync ''/repo/GAP-0001/metadata.yml'',
       ReadFileSync ''/repo/GAP-0001/metadata.yml''], Inr ())
   \<and> main sample_world [''/repo/GAP-0001''] =
     ([ExistsSync ''/repo/GAP-0001'', StatSync ''/repo/GAP-0001'',
       ExistsSync ''/repo/GAP-0001/README.md'', ExistsSync ''/repo/GAP-0001/metadata.yml'',
       ReadFileSync ''/repo/GAP-0001/metadata.yml'',
       Stdout (check_mark @ '' GAP-0001 validated successfully'')], Inr ())"
proof -
  note same = part0_same_directory_checks [of sample_world "''/repo/GAP-0001''"]
  have b: "basename sample_world ''/repo/GAP-0001'' = ''GAP-0001''"
    by (simp add: sample_world_sel sample_basename_def)
  have old: "main_part0 sample_world [''/repo/GAP-0001''] =
     ([ExistsSync ''/repo/GAP-0001'', StatSync ''/repo/GAP-0001'',
       ExistsSync ''/repo/GAP-0001/README.md'', ExistsSync ''/repo/GAP-0001/metadata.yml'',
       ReadFileSync ''/repo/GAP-0001/metadata.yml''], Inr ())"
    unfolding main_part0_def same [THEN conjunct1] same [THEN conjunct2, THEN conjunct1]
      same [THEN conjunct2, THEN conjunct2, THEN conjunct1]
    by (simp add: sample_metadata_0001 b run_defs sample_defs)
  have new: "main sample_world [''/repo/GAP-0001''] =
     ([ExistsSync ''/repo/GAP-0001'', StatSync ''/repo/GAP-0001'',
       ExistsSync ''/repo/GAP-0001/README.md'', ExistsSync ''/repo/GAP-0001/metadata.yml'',
       ReadFileSync ''/repo/GAP-0001/metadata.yml'',
       Stdout (check_mark @ '' GAP-0001 validated successfully'')], Inr ())"
    unfolding same [THEN conjunct2, THEN conjunct2, THEN conjunct2] old b
    by (simp add: console_log_def)
  from old new show ?thesis by (rule conjI)
qed

end
